theory Spec2Isabelle
  imports Main
begin

section \<open>Booking lifecycle of app/api/booking/[id]/route.ts\<close>

text \<open>
  The route handler \<open>PATCH\<close> of \<^verbatim>\<open>app/api/booking/[id]/route.ts\<close> and its two helpers
  \<open>handleCompleteBooking\<close> and \<open>handleRegularUpdate\<close> are embedded as functions over an
  explicit database. Every awaited storage call is a \<open>step\<close> that may throw, the calls a
  request issues are recorded in order, and a transaction is a working copy of the
  database that replaces the stored one at \<open>commitTransaction\<close> only. The Booking and
  Car schemas are not among the sources: what the route's behaviour depends on in them,
  the shape of a booking's schedule and two options of the Booking schema, is kept open
  in the model.
\<close>

subsection \<open>Documents\<close>

type_synonym objid = string
type_synonym date = string

text \<open>
  The status of a booking. \<open>NoStatus\<close> is a null status; a booking can only come to hold
  it through an update whose schema lets a null status through (see \<open>castStatus\<close>).
\<close>

datatype booking_status = Pending | Confirmed | Cancelled | Completed | NoStatus

record customer_info =
  fullName :: string
  email :: string
  phone :: string
  idNumber :: string

text \<open>
  A schedule entry \<^verbatim>\<open>{ date: [...], available: ... }\<close>. The marker \<^verbatim>\<open>null\<close> is \<open>None\<close>.
\<close>

record schedule_entry =
  date :: "date list"
  available :: "bool option"

text \<open>
  Modelled from the spec: the Booking and Car schemas (\<^verbatim>\<open>@/models/booking\<close> and
  \<^verbatim>\<open>@/models/cars\<close> are imported by the route but are not among the sources). The fields
  are the ones the route selects and reads: \<^verbatim>\<open>schedule carId status customerInfo\<close>.

  The shape of a booking's schedule is not fixed by the sources. The data model of the
  specification has an ordered collection of entries, and \<^verbatim>\<open>app/d/bookings/page.tsx\<close>
  declares \<^verbatim>\<open>schedule: Schedule[]\<close> and reads \<^verbatim>\<open>schedule[0].date\<close>; the route, the
  completion route and the bookings table (\<^verbatim>\<open>schedule: Schedule\<close>) read
  \<^verbatim>\<open>booking.schedule.date\<close>, one object with one array of dates. Both shapes are values
  of \<open>booking_schedule\<close>, next to a schedule that is absent, and every property below
  says which shape it is about.
\<close>

datatype booking_schedule =
    Absent
  | Single schedule_entry
  | Collection "schedule_entry list"

record booking =
  customerInfo :: customer_info
  carId :: objid
  status :: booking_status
  schedule :: booking_schedule

text \<open>
  The value of \<^verbatim>\<open>booking.schedule && booking.schedule.date\<close>, \<open>None\<close> when it is falsy.
  An array of entries has no property \<^verbatim>\<open>date\<close>, so the expression is \<^verbatim>\<open>undefined\<close> for
  it; an array of dates is truthy also when it is empty.
\<close>

fun schedule_date :: "booking_schedule \<Rightarrow> date list option" where
  "schedule_date Absent = None"
| "schedule_date (Single e) = Some (date e)"
| "schedule_date (Collection es) = None"

text \<open>
  Modelled from the spec: two options of the Booking schema that decide what an update
  with validators writes. The specification calls the customer's details an immutable
  snapshot: a schema that declares the path immutable makes every update drop it. A
  schema whose status is not required lets a null status through its enum validator.
\<close>

record booking_schema =
  customerInfo_immutable :: bool
  status_nullable :: bool

record car =
  model :: string
  schedule :: "schedule_entry list"

record db =
  bookings :: "objid \<rightharpoonup> booking"
  cars :: "objid \<rightharpoonup> car"

subsection \<open>Request bodies\<close>

text \<open>
  A parsed JSON value. JSON numbers are kept as integers: the route only tests a
  number for truthiness.
\<close>

datatype jsval =
    JNull
  | JBool bool
  | JNum int
  | JStr string
  | JArr "jsval list"
  | JObj "(string \<times> jsval) list"

fun truthy :: "jsval \<Rightarrow> bool" where
  "truthy JNull = False"
| "truthy (JBool b) = b"
| "truthy (JNum n) = (n \<noteq> 0)"
| "truthy (JStr s) = (s \<noteq> [])"
| "truthy (JArr xs) = True"
| "truthy (JObj kvs) = True"

text \<open>
  \<^verbatim>\<open>interface BookingUpdateBody { status?; action?; [key: string]: unknown }\<close>. An absent
  key (\<^verbatim>\<open>undefined\<close>) is \<open>None\<close>. \<open>req_customerInfo\<close> stands for everything in the body
  that addresses the customer's details: the key \<^verbatim>\<open>customerInfo\<close>, dotted keys such as
  \<^verbatim>\<open>customerInfo.email\<close>, and the same under an update operator. It is the change they
  make to the stored details, and \<open>None\<close> when the body has no such path. Paths of the
  body that address the car reference or the schedule of a booking are not part of the
  model: the properties below are about bodies without them.
\<close>

record BookingUpdateBody =
  req_status :: "jsval option"
  req_action :: "jsval option"
  req_customerInfo :: "(customer_info \<Rightarrow> customer_info) option"

subsection \<open>Responses, exceptions, recorded calls\<close>

datatype populated = Populated booking "car option"

datatype payload =
    ErrorBody string
  | BookingBody string "populated option"

datatype response = NextResponse_json payload nat

fun http_status :: "response \<Rightarrow> nat" where
  "http_status (NextResponse_json p n) = n"

datatype exn = Error string

datatype db_call =
    BookingFindById objid
  | BookingFindByIdAndUpdate objid
  | CarFindById objid
  | CarUpdateOne objid

text \<open>The awaited calls of the route; a fault plan says which of them throw, and with what message.\<close>

datatype step =
    DbConnect
  | RequestJson
  | StartSession
  | FindBooking
  | UpdateBooking
  | UpdateCar
  | CommitTransaction
  | AbortTransaction
  | RefetchBooking

type_synonym faults = "step \<Rightarrow> string option"

definition no_faults :: faults where
  "no_faults = (\<lambda>s. None)"

record world =
  store :: db
  calls :: "db_call list"

type_synonym 'a result = "(exn + 'a) \<times> world"

definition logged :: "db_call \<Rightarrow> world \<Rightarrow> world" where
  "logged c w = w\<lparr>calls := calls w @ [c]\<rparr>"

subsection \<open>The store operations the route uses\<close>

text \<open>
  \<^verbatim>\<open>.populate("carId")\<close>: the car reference is replaced by the car document, or by
  \<^verbatim>\<open>null\<close> when there is none.
\<close>

definition populate :: "db \<Rightarrow> booking \<Rightarrow> populated" where
  "populate d b = Populated b (cars d (carId b))"

text \<open>
  \<^verbatim>\<open>Car.updateOne({ _id }, update)\<close>: the update is applied to the car with that id; when
  no car has it nothing is matched, nothing changes and nothing is thrown.
\<close>

definition Car_update :: "objid \<Rightarrow> (car \<Rightarrow> car) \<Rightarrow> db \<Rightarrow> db" where
  "Car_update cid f d =
     (case cars d cid of
        None \<Rightarrow> d
      | Some c \<Rightarrow> d\<lparr>cars := (cars d)(cid \<mapsto> f c)\<rparr>)"

text \<open>\<^verbatim>\<open>{ $push: { schedule: { $each: entries } } }\<close> appends the entries in order.\<close>

definition push_each :: "schedule_entry list \<Rightarrow> car \<Rightarrow> car" where
  "push_each entries c = c\<lparr>car.schedule := car.schedule c @ entries\<rparr>"

text \<open>
  \<^verbatim>\<open>{ $pull: { schedule: { date: { $in: dates }, available: null } } }\<close> removes every
  entry whose date array holds at least one of \<open>dates\<close> and whose marker is null.
\<close>

definition pull_matches :: "date list \<Rightarrow> schedule_entry \<Rightarrow> bool" where
  "pull_matches dates e = (set (date e) \<inter> set dates \<noteq> {} \<and> available e = None)"

definition pull :: "date list \<Rightarrow> car \<Rightarrow> car" where
  "pull dates c = c\<lparr>car.schedule := filter (\<lambda>e. \<not> pull_matches dates e) (car.schedule c)\<rparr>"

text \<open>
  Modelled from the spec: what \<^verbatim>\<open>findByIdAndUpdate(id, body, { runValidators: true })\<close>
  writes depends on the Booking schema, which is not among the sources; the two options
  of \<open>booking_schema\<close> are taken as a parameter. The status is an enum of the four values
  of the data model: any other string, and a number or a boolean (cast to a string),
  fails validation and throws; null is written as it is when the schema lets it
  through and fails validation otherwise. The body's change to the customer's details is
  written unless the schema declares them immutable, in which case it is dropped.
  \<^verbatim>\<open>action\<close> is no schema path and is dropped.
\<close>

fun castStatus :: "booking_schema \<Rightarrow> jsval \<Rightarrow> booking_status option" where
  "castStatus schema (JStr s) =
     (if s = ''pending'' then Some Pending
      else if s = ''confirmed'' then Some Confirmed
      else if s = ''cancelled'' then Some Cancelled
      else if s = ''completed'' then Some Completed
      else None)"
| "castStatus schema JNull = (if status_nullable schema then Some NoStatus else None)"
| "castStatus schema v = None"

definition castUpdate :: "booking_schema \<Rightarrow> BookingUpdateBody \<Rightarrow> booking \<Rightarrow> exn + booking" where
  "castUpdate schema body b =
     (let b1 = (case req_customerInfo body of
                  None \<Rightarrow> b
                | Some change \<Rightarrow>
                    if customerInfo_immutable schema then b
                    else b\<lparr>customerInfo := change (customerInfo b)\<rparr>)
      in case req_status body of
           None \<Rightarrow> Inr b1
         | Some v \<Rightarrow>
             (case castStatus schema v of
                None \<Rightarrow> Inl (Error ''Validation failed'')
              | Some st \<Rightarrow> Inr (b1\<lparr>status := st\<rparr>)))"

text \<open>
  \<^verbatim>\<open>Booking.findByIdAndUpdate(id, update, ...)\<close>: \<open>update\<close> is what the update document
  makes of the stored booking, or the error it throws.
\<close>

definition Booking_findByIdAndUpdate ::
  "objid \<Rightarrow> (booking \<Rightarrow> exn + booking) \<Rightarrow> db \<Rightarrow> exn + (booking option \<times> db)" where
  "Booking_findByIdAndUpdate oid update d =
     (case bookings d oid of
        None \<Rightarrow> Inr (None, d)
      | Some b \<Rightarrow>
          (case update b of
             Inl e \<Rightarrow> Inl e
           | Inr b' \<Rightarrow> Inr (Some b', d\<lparr>bookings := (bookings d)(oid \<mapsto> b')\<rparr>)))"

text \<open>\<^verbatim>\<open>.populate("carId")\<close> on the result of a query, reading the car from \<open>d\<close>.\<close>

definition populated_result :: "db \<Rightarrow> booking option \<Rightarrow> world \<Rightarrow> populated option \<times> world" where
  "populated_result d found w =
     (case found of
        None \<Rightarrow> (None, w)
      | Some b \<Rightarrow> (Some (populate d b), logged (CarFindById (carId b)) w))"

subsection \<open>handleCompleteBooking\<close>

text \<open>\<^verbatim>\<open>{ $set: { status: "completed" } }\<close>, written without validators.\<close>

definition set_completed :: "booking \<Rightarrow> exn + booking" where
  "set_completed b = Inr (b\<lparr>status := Completed\<rparr>)"

definition scheduleEntries :: "date list \<Rightarrow> schedule_entry list" where
  "scheduleEntries dates = map (\<lambda>bookingDate. \<lparr>date = [bookingDate], available = None\<rparr>) dates"

text \<open>An early return of the try block: \<^verbatim>\<open>await session.abortTransaction(); return ...\<close>\<close>

definition abort_and_return :: "faults \<Rightarrow> response \<Rightarrow> world \<Rightarrow> response result" where
  "abort_and_return fails r w =
     (case fails AbortTransaction of
        Some msg \<Rightarrow> (Inl (Error msg), w)
      | None \<Rightarrow> (Inr r, w))"

text \<open>Step 3: the car's schedule, inside the transaction \<open>txn\<close>.\<close>

definition completeCarStep :: "faults \<Rightarrow> booking \<Rightarrow> db \<Rightarrow> world \<Rightarrow> db result" where
  "completeCarStep fails booking txn w =
     (case schedule_date (booking.schedule booking) of
        None \<Rightarrow> (Inr txn, w)
      | Some dates \<Rightarrow>
          if length dates > 0 then
            (let w1 = logged (CarUpdateOne (carId booking)) w in
             case fails UpdateCar of
               Some msg \<Rightarrow> (Inl (Error msg), w1)
             | None \<Rightarrow>
                 (Inr (Car_update (carId booking) (push_each (scheduleEntries dates)) txn), w1))
          else (Inr txn, w))"

text \<open>Step 4 and the read of the updated booking after the commit.\<close>

definition completeCommit :: "faults \<Rightarrow> objid \<Rightarrow> db \<Rightarrow> world \<Rightarrow> response result" where
  "completeCommit fails oid txn w =
     (case fails CommitTransaction of
        Some msg \<Rightarrow> (Inl (Error msg), w)
      | None \<Rightarrow>
          (let w1 = logged (BookingFindById oid) (w\<lparr>store := txn\<rparr>) in
           case fails RefetchBooking of
             Some msg \<Rightarrow> (Inl (Error msg), w1)
           | None \<Rightarrow>
               (let (updatedBooking, w2) = populated_result (store w1) (bookings (store w1) oid) w1
                in (Inr (NextResponse_json
                          (BookingBody ''Booking completed successfully'' updatedBooking) 200), w2))))"

text \<open>The try block of \<open>handleCompleteBooking\<close>.\<close>

definition handleCompleteBooking_try :: "faults \<Rightarrow> objid \<Rightarrow> world \<Rightarrow> response result" where
  "handleCompleteBooking_try fails oid w =
     (let w1 = logged (BookingFindById oid) w in
      case fails FindBooking of
        Some msg \<Rightarrow> (Inl (Error msg), w1)
      | None \<Rightarrow>
          (case bookings (store w1) oid of
             None \<Rightarrow>
               abort_and_return fails (NextResponse_json (ErrorBody ''Booking not found'') 404) w1
           | Some booking \<Rightarrow>
               if status booking = Completed then
                 abort_and_return fails
                   (NextResponse_json (ErrorBody ''Booking is already completed'') 400) w1
               else if status booking = Cancelled then
                 abort_and_return fails
                   (NextResponse_json (ErrorBody ''Cannot complete a cancelled booking'') 400) w1
               else
                 (let w2 = logged (BookingFindByIdAndUpdate oid) w1 in
                  case fails UpdateBooking of
                    Some msg \<Rightarrow> (Inl (Error msg), w2)
                  | None \<Rightarrow>
                      (case Booking_findByIdAndUpdate oid set_completed (store w2) of
                         Inl e \<Rightarrow> (Inl e, w2)
                       | Inr (updated, txn) \<Rightarrow>
                           (case completeCarStep fails booking txn w2 of
                              (Inl e, w3) \<Rightarrow> (Inl e, w3)
                            | (Inr txn', w3) \<Rightarrow> completeCommit fails oid txn' w3)))))"

text \<open>
  The session is started before the try block. The catch block aborts the transaction
  and answers 500 with the message of the error; an abort that throws leaves the handler.
\<close>

definition handleCompleteBooking :: "faults \<Rightarrow> objid \<Rightarrow> world \<Rightarrow> response result" where
  "handleCompleteBooking fails oid w =
     (case fails StartSession of
        Some msg \<Rightarrow> (Inl (Error msg), w)
      | None \<Rightarrow>
          (case handleCompleteBooking_try fails oid w of
             (Inr r, w') \<Rightarrow> (Inr r, w')
           | (Inl (Error message), w') \<Rightarrow>
               (case fails AbortTransaction of
                  Some msg \<Rightarrow> (Inl (Error msg), w')
                | None \<Rightarrow>
                    (Inr (NextResponse_json
                           (ErrorBody (''Failed to complete booking: '' @ message)) 500), w'))))"

subsection \<open>handleRegularUpdate\<close>

definition validStatuses :: "jsval list" where
  "validStatuses = [JStr ''pending'', JStr ''confirmed'', JStr ''cancelled'']"

text \<open>Truthiness of a possibly absent value, and \<^verbatim>\<open>validStatuses.includes(status)\<close>.\<close>

definition is_truthy :: "jsval option \<Rightarrow> bool" where
  "is_truthy v = (case v of None \<Rightarrow> False | Some x \<Rightarrow> truthy x)"

definition includes_status :: "jsval list \<Rightarrow> jsval option \<Rightarrow> bool" where
  "includes_status xs v = (case v of None \<Rightarrow> False | Some x \<Rightarrow> x \<in> set xs)"

text \<open>
  The text of \<^verbatim>\<open>${status ? status : 'updated'}\<close>. A truthy status that reaches the
  message is one of the strings of \<open>validStatuses\<close>.
\<close>

fun status_text :: "jsval option \<Rightarrow> string" where
  "status_text (Some (JStr s)) = (if s \<noteq> [] then s else ''updated'')"
| "status_text v = ''updated''"

text \<open>The removal of the booking's dates from the car's schedule, inside the transaction.\<close>

definition cancelCarStep :: "faults \<Rightarrow> booking \<Rightarrow> db \<Rightarrow> world \<Rightarrow> db result" where
  "cancelCarStep fails existingBooking txn w =
     (case schedule_date (booking.schedule existingBooking) of
        None \<Rightarrow> (Inr txn, w)
      | Some dates \<Rightarrow>
          (let w1 = logged (CarUpdateOne (carId existingBooking)) w in
           case fails UpdateCar of
             Some msg \<Rightarrow> (Inl (Error msg), w1)
           | None \<Rightarrow> (Inr (Car_update (carId existingBooking) (pull dates) txn), w1)))"

text \<open>The try block of the cancellation.\<close>

definition cancel_try ::
  "booking_schema \<Rightarrow> faults \<Rightarrow> objid \<Rightarrow> BookingUpdateBody \<Rightarrow> booking \<Rightarrow> world \<Rightarrow> response result" where
  "cancel_try schema fails oid body existingBooking w =
     (let w1 = logged (BookingFindByIdAndUpdate oid) w in
      case fails UpdateBooking of
        Some msg \<Rightarrow> (Inl (Error msg), w1)
      | None \<Rightarrow>
          (case Booking_findByIdAndUpdate oid
                  (castUpdate schema (body\<lparr>req_status := Some (JStr ''cancelled'')\<rparr>)) (store w1) of
             Inl e \<Rightarrow> (Inl e, w1)
           | Inr (updated, txn) \<Rightarrow>
               (let (updatedBooking, w2) = populated_result txn updated w1 in
                case cancelCarStep fails existingBooking txn w2 of
                  (Inl e, w3) \<Rightarrow> (Inl e, w3)
                | (Inr txn', w3) \<Rightarrow>
                    (case fails CommitTransaction of
                       Some msg \<Rightarrow> (Inl (Error msg), w3)
                     | None \<Rightarrow>
                         (Inr (NextResponse_json
                                (BookingBody ''Booking cancelled successfully'' updatedBooking) 200),
                          w3\<lparr>store := txn'\<rparr>)))))"

text \<open>The cancellation branch: session, try block, and a catch block that aborts and rethrows.\<close>

definition cancelBooking ::
  "booking_schema \<Rightarrow> faults \<Rightarrow> objid \<Rightarrow> BookingUpdateBody \<Rightarrow> booking \<Rightarrow> world \<Rightarrow> response result" where
  "cancelBooking schema fails oid body existingBooking w =
     (case fails StartSession of
        Some msg \<Rightarrow> (Inl (Error msg), w)
      | None \<Rightarrow>
          (case cancel_try schema fails oid body existingBooking w of
             (Inr r, w') \<Rightarrow> (Inr r, w')
           | (Inl e, w') \<Rightarrow>
               (case fails AbortTransaction of
                  Some msg \<Rightarrow> (Inl (Error msg), w')
                | None \<Rightarrow> (Inl e, w'))))"

text \<open>The regular update, written to the store at once (no session).\<close>

definition regularUpdate ::
  "booking_schema \<Rightarrow> faults \<Rightarrow> objid \<Rightarrow> BookingUpdateBody \<Rightarrow> world \<Rightarrow> response result" where
  "regularUpdate schema fails oid body w =
     (let w1 = logged (BookingFindByIdAndUpdate oid) w in
      case fails UpdateBooking of
        Some msg \<Rightarrow> (Inl (Error msg), w1)
      | None \<Rightarrow>
          (case Booking_findByIdAndUpdate oid (castUpdate schema body) (store w1) of
             Inl e \<Rightarrow> (Inl e, w1)
           | Inr (updated, d') \<Rightarrow>
               (let (updatedBooking, w2) = populated_result d' updated (w1\<lparr>store := d'\<rparr>) in
                case updatedBooking of
                  None \<Rightarrow> (Inr (NextResponse_json (ErrorBody ''Booking not found'') 404), w2)
                | Some pb \<Rightarrow>
                    (Inr (NextResponse_json
                           (BookingBody (''Booking '' @ status_text (req_status body) @ '' successfully'')
                              (Some pb)) 200), w2))))"

definition handleRegularUpdate ::
  "booking_schema \<Rightarrow> faults \<Rightarrow> objid \<Rightarrow> BookingUpdateBody \<Rightarrow> world \<Rightarrow> response result" where
  "handleRegularUpdate schema fails oid body w =
     (let status = req_status body in
      if is_truthy status \<and> \<not> includes_status validStatuses status then
        (Inr (NextResponse_json
               (ErrorBody ''Invalid status. Use action: 'complete' for completing bookings.'') 400), w)
      else
        (let w1 = logged (BookingFindById oid) w in
         case fails FindBooking of
           Some msg \<Rightarrow> (Inl (Error msg), w1)
         | None \<Rightarrow>
             (case bookings (store w1) oid of
                None \<Rightarrow> (Inr (NextResponse_json (ErrorBody ''Booking not found'') 404), w1)
              | Some existingBooking \<Rightarrow>
                  if booking.status existingBooking = Completed \<and> is_truthy status then
                    (Inr (NextResponse_json (ErrorBody ''Cannot modify a completed booking'') 400), w1)
                  else if status = Some (JStr ''cancelled'') \<and> booking.status existingBooking \<noteq> Cancelled then
                    cancelBooking schema fails oid body existingBooking w1
                  else regularUpdate schema fails oid body w1)))"

subsection \<open>PATCH\<close>

text \<open>
  The try block of \<open>PATCH\<close>. \<open>isValid\<close> is \<^verbatim>\<open>mongoose.Types.ObjectId.isValid\<close>, a function
  of the library; \<open>schema\<close> holds the options of the Booking schema.
\<close>

definition PATCH_try ::
  "booking_schema \<Rightarrow> (objid \<Rightarrow> bool) \<Rightarrow> faults \<Rightarrow> objid \<Rightarrow> BookingUpdateBody \<Rightarrow> world \<Rightarrow> response result" where
  "PATCH_try schema isValid fails oid body w =
     (case fails DbConnect of
        Some msg \<Rightarrow> (Inl (Error msg), w)
      | None \<Rightarrow>
          if \<not> isValid oid then
            (Inr (NextResponse_json (ErrorBody ''Invalid booking ID'') 400), w)
          else
            (case fails RequestJson of
               Some msg \<Rightarrow> (Inl (Error msg), w)
             | None \<Rightarrow>
                 if req_action body = Some (JStr ''complete'') \<or> req_status body = Some (JStr ''completed'')
                 then handleCompleteBooking fails oid w
                 else handleRegularUpdate schema fails oid body w))"

definition PATCH ::
  "booking_schema \<Rightarrow> (objid \<Rightarrow> bool) \<Rightarrow> faults \<Rightarrow> objid \<Rightarrow> BookingUpdateBody \<Rightarrow> world \<Rightarrow> response \<times> world" where
  "PATCH schema isValid fails oid body w =
     (case PATCH_try schema isValid fails oid body w of
        (Inr r, w') \<Rightarrow> (r, w')
      | (Inl e, w') \<Rightarrow> (NextResponse_json (ErrorBody ''Failed to update booking'') 500, w'))"

subsection \<open>Vocabulary of the properties\<close>

text \<open>
  The dates a booking occupies, whatever the shape of its schedule, and the dates the
  route reads from it: \<^verbatim>\<open>booking.schedule.date\<close>, nothing when that is falsy.
\<close>

fun occupied :: "booking_schedule \<Rightarrow> date list" where
  "occupied Absent = []"
| "occupied (Single e) = date e"
| "occupied (Collection es) = concat (map date es)"

definition bookingDates :: "booking \<Rightarrow> date list" where
  "bookingDates b = occupied (booking.schedule b)"

definition routeDates :: "booking \<Rightarrow> date list" where
  "routeDates b = (case schedule_date (booking.schedule b) of None \<Rightarrow> [] | Some dates \<Rightarrow> dates)"

text \<open>The condition under which \<open>PATCH\<close> hands the request to \<open>handleCompleteBooking\<close>.\<close>

definition is_complete :: "BookingUpdateBody \<Rightarrow> bool" where
  "is_complete body =
     (req_action body = Some (JStr ''complete'') \<or> req_status body = Some (JStr ''completed''))"

datatype transition = Confirm | Cancel | Complete

definition requested :: "BookingUpdateBody \<Rightarrow> transition option" where
  "requested body =
     (if is_complete body then Some Complete
      else if req_status body = Some (JStr ''confirmed'') then Some Confirm
      else if req_status body = Some (JStr ''cancelled'') then Some Cancel
      else None)"

text \<open>The customer's details an update with this body leaves in a booking that held \<open>ci\<close>.\<close>

definition written_customerInfo ::
  "booking_schema \<Rightarrow> BookingUpdateBody \<Rightarrow> customer_info \<Rightarrow> customer_info" where
  "written_customerInfo schema body ci =
     (case req_customerInfo body of
        None \<Rightarrow> ci
      | Some change \<Rightarrow> if customerInfo_immutable schema then ci else change ci)"

text \<open>
  The document the cancellation writes: the body's change to the customer's details, if
  the schema lets it through, then status cancelled.
\<close>

definition cancelled_doc :: "booking_schema \<Rightarrow> BookingUpdateBody \<Rightarrow> booking \<Rightarrow> booking" where
  "cancelled_doc schema body b =
     (case req_customerInfo body of
        None \<Rightarrow> b
      | Some change \<Rightarrow>
          if customerInfo_immutable schema then b
          else b\<lparr>customerInfo := change (customerInfo b)\<rparr>)\<lparr>status := Cancelled\<rparr>"

definition updated_store :: "objid \<Rightarrow> booking \<Rightarrow> db \<Rightarrow> db" where
  "updated_store oid b' d = d\<lparr>bookings := (bookings d)(oid \<mapsto> b')\<rparr>"

text \<open>The database a committed completion leaves.\<close>

definition completed_store :: "objid \<Rightarrow> booking \<Rightarrow> db \<Rightarrow> db" where
  "completed_store oid b d =
     Car_update (carId b) (push_each (scheduleEntries (routeDates b)))
       (updated_store oid (b\<lparr>status := Completed\<rparr>) d)"

subsection \<open>Concrete requests and stores\<close>

text \<open>
  Modelled from the spec: the schema of the data model, with the customer's details an
  immutable snapshot and the status always one of the four values. \<open>open_schema\<close> is a
  schema that declares neither.
\<close>

definition spec_schema :: booking_schema where
  "spec_schema = \<lparr>customerInfo_immutable = True, status_nullable = False\<rparr>"

definition open_schema :: booking_schema where
  "open_schema = \<lparr>customerInfo_immutable = False, status_nullable = True\<rparr>"

text \<open>An instance of the identifier check: 24 hexadecimal digits.\<close>

definition ex_isValid :: "objid \<Rightarrow> bool" where
  "ex_isValid s = (length s = 24 \<and> list_all (\<lambda>c. c \<in> set ''0123456789abcdefABCDEF'') s)"

definition ex_b1 :: objid where "ex_b1 = ''64b000000000000000000001''"
definition ex_b2 :: objid where "ex_b2 = ''64b000000000000000000002''"
definition ex_c1 :: objid where "ex_c1 = ''64c000000000000000000001''"

definition ex_customer :: customer_info where
  "ex_customer = \<lparr>fullName = ''Jane Doe'', email = ''jane@example.com'', phone = ''0700000000'',
                   idNumber = ''12345678''\<rparr>"

definition ex_other_customer :: customer_info where
  "ex_other_customer = \<lparr>fullName = ''John Roe'', email = ''john@example.com'', phone = ''0711111111'',
                         idNumber = ''87654321''\<rparr>"

text \<open>A booking whose schedule is one object with an array of dates.\<close>

definition ex_booking :: "booking_status \<Rightarrow> date list \<Rightarrow> booking" where
  "ex_booking st ds =
     \<lparr>customerInfo = ex_customer, carId = ex_c1, status = st,
      schedule = Single \<lparr>date = ds, available = Some True\<rparr>\<rparr>"

text \<open>A booking whose schedule is an array with one entry.\<close>

definition ex_booking_array :: "booking_status \<Rightarrow> date list \<Rightarrow> booking" where
  "ex_booking_array st ds =
     \<lparr>customerInfo = ex_customer, carId = ex_c1, status = st,
      schedule = Collection [\<lparr>date = ds, available = Some True\<rparr>]\<rparr>"

definition ex_car :: car where
  "ex_car = \<lparr>model = ''Axio'', schedule = [\<lparr>date = [''2024-05-01''], available = Some True\<rparr>]\<rparr>"

definition ex_world :: "booking \<Rightarrow> world" where
  "ex_world b = \<lparr>store = \<lparr>bookings = [ex_b1 \<mapsto> b], cars = [ex_c1 \<mapsto> ex_car]\<rparr>, calls = []\<rparr>"

text \<open>The same store without the car the booking refers to.\<close>

definition ex_world_no_car :: "booking \<Rightarrow> world" where
  "ex_world_no_car b = \<lparr>store = \<lparr>bookings = [ex_b1 \<mapsto> b], cars = Map.empty\<rparr>, calls = []\<rparr>"


definition complete_action :: BookingUpdateBody where
  "complete_action =
     \<lparr>req_status = None, req_action = Some (JStr ''complete''), req_customerInfo = None\<rparr>"

definition status_only :: "string \<Rightarrow> BookingUpdateBody" where
  "status_only s = \<lparr>req_status = Some (JStr s), req_action = None, req_customerInfo = None\<rparr>"

text \<open>A fault plan in which the write to the car throws.\<close>

definition car_write_fails :: faults where
  "car_write_fails = (\<lambda>s. if s = UpdateCar then Some ''write conflict'' else None)"

definition ex_blocked_car :: car where
  "ex_blocked_car =
     \<lparr>model = ''Axio'',
      schedule = [\<lparr>date = [''2024-05-01''], available = Some True\<rparr>,
                  \<lparr>date = [''2024-06-01''], available = None\<rparr>,
                  \<lparr>date = [''2024-07-01''], available = None\<rparr>]\<rparr>"

definition ex_world_blocked :: "booking \<Rightarrow> world" where
  "ex_world_blocked b =
     \<lparr>store = \<lparr>bookings = [ex_b1 \<mapsto> b], cars = [ex_c1 \<mapsto> ex_blocked_car]\<rparr>, calls = []\<rparr>"



definition confirm_with_customer :: BookingUpdateBody where
  "confirm_with_customer =
     \<lparr>req_status = Some (JStr ''confirmed''), req_action = None,
      req_customerInfo = Some (\<lambda>stored. ex_other_customer)\<rparr>"


section \<open>Properties\<close>

subsection \<open>Store operations\<close>

lemma no_faults_apply [simp]: "no_faults s = None"
  by (simp add: no_faults_def)

lemma Car_update_same: "(\<And>c. f c = c) \<Longrightarrow> Car_update cid f d = d"
  by (simp add: Car_update_def map_upd_triv split: option.splits)

lemma push_each_Nil: "push_each [] c = c"
  by (simp add: push_each_def)

lemma pull_Nil: "pull [] c = c"
  by (simp add: pull_def pull_matches_def)

lemma store_logged [simp]: "store (logged c w) = store w"
  by (simp add: logged_def)

lemma calls_logged [simp]: "calls (logged c w) = calls w @ [c]"
  by (simp add: logged_def)

lemma cars_updated_store [simp]: "cars (updated_store oid b' d) = cars d"
  by (simp add: updated_store_def)

lemma bookings_updated_store [simp]: "bookings (updated_store oid b' d) = (bookings d)(oid \<mapsto> b')"
  by (simp add: updated_store_def)

lemma bookings_Car_update [simp]: "bookings (Car_update cid f d) = bookings d"
  by (simp add: Car_update_def split: option.splits)


lemma castUpdate_cancelled:
  "castUpdate schema (body\<lparr>req_status := Some (JStr ''cancelled'')\<rparr>) b = Inr (cancelled_doc schema body b)"
  by (simp add: castUpdate_def cancelled_doc_def split: option.splits)

lemma castUpdate_customerInfo:
  "castUpdate schema body b = Inr b' \<Longrightarrow>
     customerInfo b' = written_customerInfo schema body (customerInfo b)"
  by (auto simp add: castUpdate_def written_customerInfo_def Let_def split: option.splits)

lemma cancelled_doc_customerInfo:
  "customerInfo (cancelled_doc schema body b) =
     written_customerInfo schema body (customerInfo b)"
  by (simp add: cancelled_doc_def written_customerInfo_def split: option.splits)

subsection \<open>The handlers when no call throws\<close>

lemma completeCarStep_ok:
  "completeCarStep no_faults b txn w =
     (Inr (Car_update (carId b) (push_each (scheduleEntries (routeDates b))) txn),
      if routeDates b = [] then w else logged (CarUpdateOne (carId b)) w)"
  by (simp add: completeCarStep_def routeDates_def Let_def scheduleEntries_def
      Car_update_same push_each_Nil split: option.splits)

lemma cancelCarStep_ok:
  "cancelCarStep no_faults b txn w =
     (Inr (Car_update (carId b) (pull (routeDates b)) txn),
      if schedule_date (booking.schedule b) = None then w else logged (CarUpdateOne (carId b)) w)"
  by (simp add: cancelCarStep_def routeDates_def Let_def
      Car_update_same pull_Nil split: option.splits)

lemma handleCompleteBooking_ok:
  assumes "bookings (store w) oid = Some b" and "status b \<noteq> Completed" and "status b \<noteq> Cancelled"
  shows "handleCompleteBooking no_faults oid w =
     (let b' = b\<lparr>status := Completed\<rparr>;
          d' = Car_update (carId b) (push_each (scheduleEntries (routeDates b)))
                 ((store w)\<lparr>bookings := (bookings (store w))(oid \<mapsto> b')\<rparr>)
      in (Inr (NextResponse_json
                (BookingBody ''Booking completed successfully'' (Some (populate d' b'))) 200),
          w\<lparr>store := d',
            calls := calls w @ [BookingFindById oid, BookingFindByIdAndUpdate oid]
                     @ (if routeDates b = [] then [] else [CarUpdateOne (carId b)])
                     @ [BookingFindById oid, CarFindById (carId b)]\<rparr>))"
  using assms
  by (simp add: handleCompleteBooking_def handleCompleteBooking_try_def completeCarStep_ok Let_def
      Booking_findByIdAndUpdate_def castUpdate_def set_completed_def completeCommit_def
      populated_result_def logged_def)

lemma handleCompleteBooking_rejects:
  assumes "bookings (store w) oid = Some b" and "status b = Completed \<or> status b = Cancelled"
  shows "handleCompleteBooking no_faults oid w =
     (Inr (NextResponse_json
            (ErrorBody (if status b = Completed then ''Booking is already completed''
                        else ''Cannot complete a cancelled booking'')) 400),
      w\<lparr>calls := calls w @ [BookingFindById oid]\<rparr>)"
  using assms
  by (auto simp add: handleCompleteBooking_def handleCompleteBooking_try_def Let_def
      abort_and_return_def logged_def)

lemma cancelBooking_ok:
  assumes "bookings (store w) oid = Some b"
  shows "cancelBooking schema no_faults oid body b w =
     (let b' = cancelled_doc schema body b;
          d1 = (store w)\<lparr>bookings := (bookings (store w))(oid \<mapsto> b')\<rparr>;
          d' = Car_update (carId b) (pull (routeDates b)) d1
      in (Inr (NextResponse_json
                (BookingBody ''Booking cancelled successfully'' (Some (populate d1 b'))) 200),
          w\<lparr>store := d',
            calls := calls w @ [BookingFindByIdAndUpdate oid, CarFindById (carId b')]
                     @ (if schedule_date (booking.schedule b) = None then [] else [CarUpdateOne (carId b)])\<rparr>))"
  using assms
  by (simp add: cancelBooking_def cancel_try_def cancelCarStep_ok Let_def cancelled_doc_def
      Booking_findByIdAndUpdate_def castUpdate_def populated_result_def logged_def
      split: option.splits)

lemma regularUpdate_ok:
  assumes "bookings (store w) oid = Some b" and "castUpdate schema body b = Inr b'"
  shows "regularUpdate schema no_faults oid body w =
     (Inr (NextResponse_json
            (BookingBody (''Booking '' @ status_text (req_status body) @ '' successfully'')
               (Some (populate (updated_store oid b' (store w)) b'))) 200),
      w\<lparr>store := updated_store oid b' (store w),
        calls := calls w @ [BookingFindByIdAndUpdate oid, CarFindById (carId b')]\<rparr>)"
  using assms
  by (simp add: regularUpdate_def Let_def Booking_findByIdAndUpdate_def populated_result_def
      logged_def updated_store_def)

lemma handleRegularUpdate_cancel:
  assumes "bookings (store w) oid = Some b" and "status b \<noteq> Completed" and "status b \<noteq> Cancelled"
    and "req_status body = Some (JStr ''cancelled'')"
  shows "handleRegularUpdate schema no_faults oid body w =
           cancelBooking schema no_faults oid body b (logged (BookingFindById oid) w)"
  using assms
  by (simp add: handleRegularUpdate_def Let_def is_truthy_def includes_status_def validStatuses_def
      logged_def)

lemma handleRegularUpdate_regular:
  assumes "bookings (store w) oid = Some b"
    and "req_status body = Some (JStr s)" and "s = ''pending'' \<or> s = ''confirmed'' \<or> s = ''cancelled''"
    and "status b \<noteq> Completed" and "s = ''cancelled'' \<longrightarrow> status b = Cancelled"
  shows "handleRegularUpdate schema no_faults oid body w =
           regularUpdate schema no_faults oid body (logged (BookingFindById oid) w)"
  using assms
  by (auto simp add: handleRegularUpdate_def Let_def is_truthy_def includes_status_def
      validStatuses_def logged_def)

lemma handleRegularUpdate_completed:
  assumes "bookings (store w) oid = Some b" and "status b = Completed"
    and "req_status body = Some (JStr s)" and "s = ''pending'' \<or> s = ''confirmed'' \<or> s = ''cancelled''"
  shows "handleRegularUpdate schema no_faults oid body w =
           (Inr (NextResponse_json (ErrorBody ''Cannot modify a completed booking'') 400),
            logged (BookingFindById oid) w)"
  using assms
  by (auto simp add: handleRegularUpdate_def Let_def is_truthy_def includes_status_def
      validStatuses_def logged_def)

lemma PATCH_complete:
  assumes "isValid oid" and "is_complete body"
  shows "PATCH schema isValid no_faults oid body w =
           (case handleCompleteBooking no_faults oid w of
              (Inr r, w') \<Rightarrow> (r, w')
            | (Inl e, w') \<Rightarrow> (NextResponse_json (ErrorBody ''Failed to update booking'') 500, w'))"
  using assms by (auto simp add: PATCH_def PATCH_try_def is_complete_def)

lemma PATCH_regular:
  assumes "isValid oid" and "\<not> is_complete body"
  shows "PATCH schema isValid no_faults oid body w =
           (case handleRegularUpdate schema no_faults oid body w of
              (Inr r, w') \<Rightarrow> (r, w')
            | (Inl e, w') \<Rightarrow> (NextResponse_json (ErrorBody ''Failed to update booking'') 500, w'))"
  using assms by (auto simp add: PATCH_def PATCH_try_def is_complete_def)

subsection \<open>The handlers under any fault plan\<close>

lemma completeCarStep_any:
  "completeCarStep fails b txn w = (x, w1) \<Longrightarrow>
     store w1 = store w \<and>
     (\<forall>txn'. x = Inr txn' \<longrightarrow> txn' = Car_update (carId b) (push_each (scheduleEntries (routeDates b))) txn)"
  by (auto simp add: completeCarStep_def routeDates_def Let_def scheduleEntries_def logged_def
      Car_update_same push_each_Nil split: option.splits if_splits)

lemma cancelCarStep_any:
  "cancelCarStep fails b txn w = (x, w1) \<Longrightarrow>
     store w1 = store w \<and>
     (\<forall>txn'. x = Inr txn' \<longrightarrow> txn' = Car_update (carId b) (pull (routeDates b)) txn)"
  by (auto simp add: cancelCarStep_def routeDates_def Let_def logged_def
      Car_update_same pull_Nil split: option.splits if_splits)

lemma completeCommit_any:
  "completeCommit fails oid txn w = (x, w1) \<Longrightarrow>
     store w1 = store w \<or>
     (store w1 = txn \<and> (fails RefetchBooking = None \<longrightarrow> (\<exists>r. x = Inr r \<and> http_status r = 200)))"
  by (auto simp add: completeCommit_def Let_def logged_def populated_result_def
      split: option.splits if_splits prod.splits)

lemma abort_and_return_any:
  "abort_and_return fails r w = (x, w1) \<Longrightarrow> w1 = w"
  by (auto simp add: abort_and_return_def split: option.splits)

lemma handleCompleteBooking_try_any:
  assumes "handleCompleteBooking_try fails oid w = (x, w1)"
  shows "store w1 = store w \<or>
     (\<exists>b. bookings (store w) oid = Some b \<and> store w1 = completed_store oid b (store w)
          \<and> (fails RefetchBooking = None \<longrightarrow> (\<exists>r. x = Inr r \<and> http_status r = 200)))"
proof (cases "fails FindBooking")
  case (Some msg)
  then show ?thesis using assms
    by (auto simp add: handleCompleteBooking_try_def Let_def logged_def)
next
  case None
  show ?thesis
  proof (cases "bookings (store w) oid")
    case n: None
    then show ?thesis using assms None
      by (auto simp add: handleCompleteBooking_try_def Let_def logged_def dest!: abort_and_return_any)
  next
    case (Some b)
    show ?thesis
    proof (cases "status b = Completed \<or> status b = Cancelled")
      case True
      then show ?thesis using assms None Some
        by (auto simp add: handleCompleteBooking_try_def Let_def logged_def dest!: abort_and_return_any)
    next
      case False
      show ?thesis
      proof (cases "fails UpdateBooking")
        case u: (Some msg)
        then show ?thesis using assms None Some False
          by (auto simp add: handleCompleteBooking_try_def Let_def logged_def)
      next
        case u: None
        let ?txn = "(store w)\<lparr>bookings := (bookings (store w))(oid \<mapsto> b\<lparr>status := Completed\<rparr>)\<rparr>"
        let ?w2 = "logged (BookingFindByIdAndUpdate oid) (logged (BookingFindById oid) w)"
        obtain y w3 where car: "completeCarStep fails b ?txn ?w2 = (y, w3)"
          by (cases "completeCarStep fails b ?txn ?w2")
        note c = completeCarStep_any [OF car]
        have w3: "store w3 = store w" using c by (simp add: logged_def)
        show ?thesis
        proof (cases y)
          case (Inl e)
          then show ?thesis using assms None Some False u car w3
            by (auto simp add: handleCompleteBooking_try_def Let_def logged_def
                Booking_findByIdAndUpdate_def castUpdate_def set_completed_def)
        next
          case (Inr txn')
          then have t: "txn' = completed_store oid b (store w)"
            using c by (simp add: completed_store_def updated_store_def)
          have "completeCommit fails oid txn' w3 = (x, w1)"
            using assms None Some False u car Inr
            by (auto simp add: handleCompleteBooking_try_def Let_def logged_def
                Booking_findByIdAndUpdate_def castUpdate_def set_completed_def)
          from completeCommit_any [OF this] show ?thesis
            using t w3 Some by auto
        qed
      qed
    qed
  qed
qed

lemma handleCompleteBooking_any:
  assumes "handleCompleteBooking fails oid w = (x, w1)"
  shows "store w1 = store w \<or>
     (\<exists>b. bookings (store w) oid = Some b \<and> store w1 = completed_store oid b (store w)
          \<and> (fails RefetchBooking = None \<longrightarrow> (\<exists>r. x = Inr r \<and> http_status r = 200)))"
proof (cases "fails StartSession")
  case (Some msg)
  then show ?thesis using assms by (auto simp add: handleCompleteBooking_def)
next
  case None
  obtain y w2 where t: "handleCompleteBooking_try fails oid w = (y, w2)"
    by (cases "handleCompleteBooking_try fails oid w")
  have w: "w1 = w2" using assms None t
    by (auto simp add: handleCompleteBooking_def split: sum.splits exn.splits option.splits)
  have x: "\<And>r. y = Inr r \<Longrightarrow> x = Inr r" using assms None t
    by (auto simp add: handleCompleteBooking_def)
  from handleCompleteBooking_try_any [OF t] show ?thesis
    using w x by auto
qed

lemma cancel_try_any:
  assumes "cancel_try schema fails oid body b w = (x, w1)" and "bookings (store w) oid = Some b"
  shows "store w1 = store w \<or>
     (store w1 = Car_update (carId b) (pull (routeDates b)) (updated_store oid (cancelled_doc schema body b) (store w))
      \<and> (\<exists>r. x = Inr r \<and> http_status r = 200))"
proof (cases "fails UpdateBooking")
  case (Some msg)
  then show ?thesis using assms by (auto simp add: cancel_try_def Let_def logged_def)
next
  case None
  let ?b' = "cancelled_doc schema body b"
  let ?txn = "updated_store oid ?b' (store w)"
  let ?w2 = "logged (CarFindById (carId ?b')) (logged (BookingFindByIdAndUpdate oid) w)"
  obtain y w3 where car: "cancelCarStep fails b ?txn ?w2 = (y, w3)"
    by (cases "cancelCarStep fails b ?txn ?w2")
  note c = cancelCarStep_any [OF car]
  have w3: "store w3 = store w" using c by (simp add: logged_def)
  show ?thesis
  proof (cases y)
    case (Inl e)
    then show ?thesis using assms None car w3
      by (auto simp add: cancel_try_def Let_def logged_def updated_store_def populated_result_def
          Booking_findByIdAndUpdate_def castUpdate_cancelled)
  next
    case (Inr txn')
    then have t: "txn' = Car_update (carId b) (pull (routeDates b)) ?txn"
      using c by simp
    show ?thesis using assms None car w3 Inr t
      by (auto simp add: cancel_try_def Let_def logged_def updated_store_def populated_result_def
          Booking_findByIdAndUpdate_def castUpdate_cancelled split: option.splits)
  qed
qed

lemma cancelBooking_any:
  assumes "cancelBooking schema fails oid body b w = (x, w1)" and "bookings (store w) oid = Some b"
  shows "store w1 = store w \<or>
     (store w1 = Car_update (carId b) (pull (routeDates b)) (updated_store oid (cancelled_doc schema body b) (store w))
      \<and> (\<exists>r. x = Inr r \<and> http_status r = 200))"
proof (cases "fails StartSession")
  case (Some msg)
  then show ?thesis using assms by (auto simp add: cancelBooking_def)
next
  case None
  obtain y w2 where t: "cancel_try schema fails oid body b w = (y, w2)"
    by (cases "cancel_try schema fails oid body b w")
  have w: "w1 = w2" using assms None t
    by (auto simp add: cancelBooking_def split: sum.splits option.splits)
  have x: "\<And>r. y = Inr r \<Longrightarrow> x = Inr r" using assms None t
    by (auto simp add: cancelBooking_def)
  from cancel_try_any [OF t assms(2)] show ?thesis
    using w x by auto
qed

lemma regularUpdate_any:
  assumes "regularUpdate schema fails oid body w = (x, w1)"
  shows "store w1 = store w \<or>
     (\<exists>b b'. bookings (store w) oid = Some b \<and> castUpdate schema body b = Inr b'
        \<and> store w1 = updated_store oid b' (store w)
        \<and> (\<exists>r. x = Inr r \<and> http_status r = 200))"
  using assms
  by (auto simp add: regularUpdate_def Let_def logged_def updated_store_def populated_result_def
      Booking_findByIdAndUpdate_def split: option.splits sum.splits)

lemma handleRegularUpdate_any:
  assumes "handleRegularUpdate schema fails oid body w = (x, w1)"
  shows "store w1 = store w \<or>
     (\<exists>b b'. bookings (store w) oid = Some b
        \<and> customerInfo b' = written_customerInfo schema body (customerInfo b)
        \<and> (store w1 = updated_store oid b' (store w)
            \<or> store w1 = Car_update (carId b) (pull (routeDates b)) (updated_store oid b' (store w)))
        \<and> (\<exists>r. x = Inr r \<and> http_status r = 200))"
proof (cases "is_truthy (req_status body) \<and> \<not> includes_status validStatuses (req_status body)")
  case True
  then show ?thesis using assms by (auto simp add: handleRegularUpdate_def Let_def)
next
  case valid: False
  let ?w1 = "logged (BookingFindById oid) w"
  have s: "store ?w1 = store w" by (simp add: logged_def)
  show ?thesis
  proof (cases "fails FindBooking")
    case (Some msg)
    then show ?thesis using assms valid by (auto simp add: handleRegularUpdate_def Let_def logged_def)
  next
    case None
    show ?thesis
    proof (cases "bookings (store w) oid")
      case n: None
      then show ?thesis using assms valid None
        by (auto simp add: handleRegularUpdate_def Let_def logged_def)
    next
      case (Some b)
      consider (rej) "status b = Completed \<and> is_truthy (req_status body)"
        | (cancel) "\<not> (status b = Completed \<and> is_truthy (req_status body))"
            "req_status body = Some (JStr ''cancelled'') \<and> status b \<noteq> Cancelled"
        | (regular) "\<not> (status b = Completed \<and> is_truthy (req_status body))"
            "\<not> (req_status body = Some (JStr ''cancelled'') \<and> status b \<noteq> Cancelled)"
        by blast
      then show ?thesis
      proof cases
        case rej
        then show ?thesis using assms valid None Some
          by (auto simp add: handleRegularUpdate_def Let_def logged_def)
      next
        case cancel
        have "cancelBooking schema fails oid body b ?w1 = (x, w1)"
          using assms valid None Some cancel
          by (auto simp add: handleRegularUpdate_def Let_def logged_def)
        from cancelBooking_any [OF this] Some s show ?thesis
          using cancelled_doc_customerInfo [of schema body b] by auto
      next
        case regular
        have "regularUpdate schema fails oid body ?w1 = (x, w1)"
          using assms valid None Some regular
          by (auto simp add: handleRegularUpdate_def Let_def logged_def)
        from regularUpdate_any [OF this] Some s show ?thesis
          by (auto dest: castUpdate_customerInfo)
      qed
    qed
  qed
qed

lemma PATCH_any:
  assumes "PATCH schema isValid fails oid body w = (r, w')"
  shows "store w' = store w \<or>
     ((fails RefetchBooking = None \<longrightarrow> http_status r = 200) \<and>
      (\<exists>b. bookings (store w) oid = Some b \<and>
         ((is_complete body \<and> store w' = completed_store oid b (store w)) \<or>
          (\<not> is_complete body \<and>
            (\<exists>b'. customerInfo b' = written_customerInfo schema body (customerInfo b)
               \<and> (store w' = updated_store oid b' (store w)
                   \<or> store w' = Car_update (carId b) (pull (routeDates b)) (updated_store oid b' (store w))))))))"
proof (cases "fails DbConnect = None \<and> isValid oid \<and> fails RequestJson = None")
  case False
  then show ?thesis using assms
    by (auto simp add: PATCH_def PATCH_try_def split: option.splits if_splits)
next
  case pre: True
  show ?thesis
  proof (cases "is_complete body")
    case True
    obtain x w1 where h: "handleCompleteBooking fails oid w = (x, w1)"
      by (cases "handleCompleteBooking fails oid w")
    have w: "w' = w1" and x: "\<And>q. x = Inr q \<Longrightarrow> r = q"
      using assms pre True h
      by (auto simp add: PATCH_def PATCH_try_def is_complete_def split: sum.splits)
    from handleCompleteBooking_any [OF h] show ?thesis
      using w x True by auto
  next
    case False
    obtain x w1 where h: "handleRegularUpdate schema fails oid body w = (x, w1)"
      by (cases "handleRegularUpdate schema fails oid body w")
    have w: "w' = w1" and x: "\<And>q. x = Inr q \<Longrightarrow> r = q"
      using assms pre False h
      by (auto simp add: PATCH_def PATCH_try_def is_complete_def split: sum.splits)
    from handleRegularUpdate_any [OF h] show ?thesis
      using w x False by auto
  qed
qed

subsection \<open>Requests that reach the store, when no call throws\<close>

lemma PATCH_complete_ok:
  assumes "isValid oid" and "is_complete body" and "bookings (store w) oid = Some b"
    and "status b \<noteq> Completed" and "status b \<noteq> Cancelled"
  shows "PATCH schema isValid no_faults oid body w =
     (NextResponse_json
        (BookingBody ''Booking completed successfully''
           (Some (populate (completed_store oid b (store w)) (b\<lparr>status := Completed\<rparr>)))) 200,
      w\<lparr>store := completed_store oid b (store w),
        calls := calls w @ [BookingFindById oid, BookingFindByIdAndUpdate oid]
                 @ (if routeDates b = [] then [] else [CarUpdateOne (carId b)])
                 @ [BookingFindById oid, CarFindById (carId b)]\<rparr>)"
  using assms(1,2)
  by (simp add: PATCH_complete handleCompleteBooking_ok [OF assms(3,4,5)] Let_def
      completed_store_def updated_store_def)

lemma PATCH_complete_rejects:
  assumes "isValid oid" and "is_complete body" and "bookings (store w) oid = Some b"
    and "status b = Completed \<or> status b = Cancelled"
  shows "PATCH schema isValid no_faults oid body w =
     (NextResponse_json
        (ErrorBody (if status b = Completed then ''Booking is already completed''
                    else ''Cannot complete a cancelled booking'')) 400,
      w\<lparr>calls := calls w @ [BookingFindById oid]\<rparr>)"
  using assms(1,2)
  by (simp add: PATCH_complete handleCompleteBooking_rejects [OF assms(3,4)])

lemma PATCH_cancel_ok:
  assumes "isValid oid" and "\<not> is_complete body" and "req_status body = Some (JStr ''cancelled'')"
    and "bookings (store w) oid = Some b"
    and "status b \<noteq> Completed" and "status b \<noteq> Cancelled"
  shows "PATCH schema isValid no_faults oid body w =
     (NextResponse_json
        (BookingBody ''Booking cancelled successfully''
           (Some (populate (updated_store oid (cancelled_doc schema body b) (store w)) (cancelled_doc schema body b)))) 200,
      w\<lparr>store := Car_update (carId b) (pull (routeDates b))
                   (updated_store oid (cancelled_doc schema body b) (store w)),
        calls := calls w @ [BookingFindById oid, BookingFindByIdAndUpdate oid,
                            CarFindById (carId (cancelled_doc schema body b))]
                 @ (if schedule_date (booking.schedule b) = None then [] else [CarUpdateOne (carId b)])\<rparr>)"
proof -
  have b: "bookings (store (logged (BookingFindById oid) w)) oid = Some b"
    using assms(4) by simp
  show ?thesis
    using assms(1,2)
    by (simp add: PATCH_regular handleRegularUpdate_cancel [OF assms(4,5,6,3)]
        cancelBooking_ok [OF b] Let_def updated_store_def)
qed

lemma PATCH_regular_ok:
  assumes "isValid oid" and "\<not> is_complete body" and "bookings (store w) oid = Some b"
    and "req_status body = Some (JStr s)" and "s = ''pending'' \<or> s = ''confirmed'' \<or> s = ''cancelled''"
    and "status b \<noteq> Completed" and "s = ''cancelled'' \<longrightarrow> status b = Cancelled"
    and "castUpdate schema body b = Inr b'"
  shows "PATCH schema isValid no_faults oid body w =
     (NextResponse_json
        (BookingBody (''Booking '' @ s @ '' successfully'')
           (Some (populate (updated_store oid b' (store w)) b'))) 200,
      w\<lparr>store := updated_store oid b' (store w),
        calls := calls w @ [BookingFindById oid, BookingFindByIdAndUpdate oid, CarFindById (carId b')]\<rparr>)"
proof -
  have b: "bookings (store (logged (BookingFindById oid) w)) oid = Some b"
    using assms(3) by simp
  have s: "s \<noteq> []" using assms(5) by auto
  show ?thesis
    using assms(1,2) s
    by (simp add: PATCH_regular handleRegularUpdate_regular [OF assms(3,4,5,6,7)]
        regularUpdate_ok [OF b assms(8)] assms(4))
qed

lemma PATCH_completed_rejects:
  assumes "isValid oid" and "\<not> is_complete body" and "bookings (store w) oid = Some b"
    and "status b = Completed"
    and "req_status body = Some (JStr s)" and "s = ''pending'' \<or> s = ''confirmed'' \<or> s = ''cancelled''"
  shows "PATCH schema isValid no_faults oid body w =
     (NextResponse_json (ErrorBody ''Cannot modify a completed booking'') 400,
      w\<lparr>calls := calls w @ [BookingFindById oid]\<rparr>)"
  using assms(1,2)
  by (simp add: PATCH_regular handleRegularUpdate_completed [OF assms(3,4,5,6)] logged_def)

lemma Car_update_missing: "cars d cid = None \<Longrightarrow> Car_update cid f d = d"
  by (simp add: Car_update_def)

lemma customerInfo_Car_update:
  "map_option customerInfo (bookings (Car_update cid f d) k) = map_option customerInfo (bookings d k)"
  by simp


lemma castUpdate_cancel_request:
  "req_status body = Some (JStr ''cancelled'') \<Longrightarrow> castUpdate schema body b = Inr (cancelled_doc schema body b)"
  by (simp add: castUpdate_def cancelled_doc_def split: option.splits)

lemma requested_Complete: "requested body = Some Complete \<longleftrightarrow> is_complete body"
  by (simp add: requested_def)

lemma requested_Cancel:
  "requested body = Some Cancel \<longleftrightarrow> \<not> is_complete body \<and> req_status body = Some (JStr ''cancelled'')"
  by (simp add: requested_def)

lemma requested_status:
  assumes "requested body = Some t" and "t \<noteq> Complete"
  shows "\<not> is_complete body \<and>
         (\<exists>s. req_status body = Some (JStr s) \<and> (s = ''pending'' \<or> s = ''confirmed'' \<or> s = ''cancelled''))"
  using assms by (auto simp add: requested_def split: if_splits)

lemma completed_store_no_dates:
  "routeDates b = [] \<Longrightarrow> completed_store oid b d = updated_store oid (b\<lparr>status := Completed\<rparr>) d"
  by (simp add: completed_store_def scheduleEntries_def Car_update_same push_each_Nil)

lemma pull_no_dates_store:
  "routeDates b = [] \<Longrightarrow> Car_update (carId b) (pull (routeDates b)) d = d"
  by (simp add: Car_update_same pull_Nil)

lemma carId_cancelled_doc [simp]: "carId (cancelled_doc schema body b) = carId b"
  by (simp add: cancelled_doc_def split: option.splits)

lemma status_cancelled_doc [simp]: "status (cancelled_doc schema body b) = Cancelled"
  by (simp add: cancelled_doc_def split: option.splits)

lemma PATCH_cancel_again:
  assumes "isValid oid" and "\<not> is_complete body" and "req_status body = Some (JStr ''cancelled'')"
    and "bookings (store w) oid = Some b" and "status b = Cancelled"
  shows "PATCH schema isValid no_faults oid body w =
     (NextResponse_json
        (BookingBody ''Booking cancelled successfully''
           (Some (populate (updated_store oid (cancelled_doc schema body b) (store w)) (cancelled_doc schema body b)))) 200,
      w\<lparr>store := updated_store oid (cancelled_doc schema body b) (store w),
        calls := calls w @ [BookingFindById oid, BookingFindByIdAndUpdate oid, CarFindById (carId b)]\<rparr>)"
proof -
  have nc: "status b \<noteq> Completed" using assms(5) by simp
  have c: "castUpdate schema body b = Inr (cancelled_doc schema body b)"
    by (rule castUpdate_cancel_request [OF assms(3)])
  show ?thesis
    using PATCH_regular_ok [where schema = schema and isValid = isValid and s = "''cancelled''",
        OF assms(1,2,4,3) _ nc _ c] assms(5)
    by simp
qed

subsection \<open>The concrete store\<close>

lemma ex_isValid_ids [simp]: "ex_isValid ex_b1" "ex_isValid ex_b2"
  by (simp_all add: ex_isValid_def ex_b1_def ex_b2_def)

lemma ex_ids_distinct [simp]: "ex_b1 \<noteq> ex_b2" "ex_b2 \<noteq> ex_b1"
  by (simp_all add: ex_b1_def ex_b2_def)

lemma ex_bodies [simp]:
  "is_complete complete_action"
  "\<not> is_complete (status_only ''cancelled'')"
  "\<not> is_complete (status_only ''confirmed'')"
  "req_status (status_only s) = Some (JStr s)"
  "requested complete_action = Some Complete"
  "requested (status_only ''cancelled'') = Some Cancel"
  "requested (status_only ''confirmed'') = Some Confirm"
  by (simp_all add: is_complete_def requested_def complete_action_def status_only_def)

lemma ex_world_lookup [simp]:
  "bookings (store (ex_world b)) ex_b1 = Some b"
  "cars (store (ex_world b)) ex_c1 = Some ex_car"
  "bookings (store (ex_world_no_car b)) ex_b1 = Some b"
  "cars (store (ex_world_no_car b)) k = None"
  "bookings (store (ex_world_blocked b)) ex_b1 = Some b"
  "cars (store (ex_world_blocked b)) ex_c1 = Some ex_blocked_car"
  by (simp_all add: ex_world_def ex_world_no_car_def ex_world_blocked_def)

lemma ex_booking_fields [simp]:
  "status (ex_booking st ds) = st"
  "carId (ex_booking st ds) = ex_c1"
  "customerInfo (ex_booking st ds) = ex_customer"
  "routeDates (ex_booking st ds) = ds"
  "bookingDates (ex_booking st ds) = ds"
  by (simp_all add: ex_booking_def routeDates_def bookingDates_def)

lemma ex_booking_array_fields [simp]:
  "status (ex_booking_array st ds) = st"
  "carId (ex_booking_array st ds) = ex_c1"
  "customerInfo (ex_booking_array st ds) = ex_customer"
  "routeDates (ex_booking_array st ds) = []"
  "bookingDates (ex_booking_array st ds) = ds"
  by (simp_all add: ex_booking_array_def routeDates_def bookingDates_def)

subsection \<open>The two shapes of a booking's schedule\<close>



lemma routeDates_no_dates: "bookingDates b = [] \<Longrightarrow> routeDates b = []"
  by (cases "booking.schedule b") (simp_all add: routeDates_def bookingDates_def)

lemma schedule_date_Single_iff:
  "schedule_date s \<noteq> None \<longleftrightarrow> (\<exists>e. s = Single e)"
  by (cases s) simp_all

lemma car_keeps_schedule: "c\<lparr>car.schedule := car.schedule c @ []\<rparr> = c"
  by simp

subsection \<open>A schema that does not protect the customer's details\<close>

text \<open>
  The route does not filter the body. Under a schema that does not declare the
  customer's details immutable, a confirmation whose body carries other details is
  answered with 200 and writes them to the booking.
\<close>

lemma open_schema_writes_customerInfo:
  "http_status (fst (PATCH open_schema ex_isValid no_faults ex_b1 confirm_with_customer
                       (ex_world (ex_booking Pending [''2024-06-01''])))) = 200
   \<and> map_option customerInfo
        (bookings (store (snd (PATCH open_schema ex_isValid no_faults ex_b1 confirm_with_customer
           (ex_world (ex_booking Pending [''2024-06-01''])))))
         ex_b1) = Some ex_other_customer
   \<and> ex_other_customer \<noteq> ex_customer"
proof -
  let ?b = "ex_booking Pending [''2024-06-01'']"
  let ?b' = "?b\<lparr>customerInfo := ex_other_customer, status := Confirmed\<rparr>"
  have v: "ex_isValid ex_b1" by simp
  have n: "\<not> is_complete confirm_with_customer"
    by (simp add: is_complete_def confirm_with_customer_def)
  have k: "bookings (store (ex_world ?b)) ex_b1 = Some ?b" by (simp add: ex_world_def)
  have q: "req_status confirm_with_customer = Some (JStr ''confirmed'')"
    by (simp add: confirm_with_customer_def)
  have s: "status ?b \<noteq> Completed" by (simp add: ex_booking_def)
  have c: "castUpdate open_schema confirm_with_customer ?b = Inr ?b'"
    by (simp add: castUpdate_def confirm_with_customer_def open_schema_def)
  have p: "PATCH open_schema ex_isValid no_faults ex_b1 confirm_with_customer (ex_world ?b) =
     (NextResponse_json
        (BookingBody (''Booking '' @ ''confirmed'' @ '' successfully'')
           (Some (populate (updated_store ex_b1 ?b' (store (ex_world ?b))) ?b'))) 200,
      (ex_world ?b)\<lparr>store := updated_store ex_b1 ?b' (store (ex_world ?b)),
        calls := calls (ex_world ?b) @
                 [BookingFindById ex_b1, BookingFindByIdAndUpdate ex_b1, CarFindById (carId ?b')]\<rparr>)"
    by (rule PATCH_regular_ok [where schema = open_schema and isValid = ex_isValid, OF v n k q _ s _ c])
      simp_all
  show ?thesis
    unfolding p fst_conv snd_conv
    by (simp add: ex_world_def ex_booking_def ex_customer_def ex_other_customer_def)
qed

section \<open>The claims\<close>

subsection \<open>Completion\<close>




subsection \<open>Cancellation\<close>




subsection \<open>Failures inside the transaction\<close>

text \<open>
  Claim C3. Whatever calls throw, as long as the read of the booking that follows the
  commit does not (it is outside the transaction), a request that is not answered with
  200 leaves the whole store as it was: the booking's status and the car's schedule both
  keep their values from before the call.
\<close>

theorem failure_leaves_store_unchanged:
  assumes "fails RefetchBooking = None"
    and "PATCH schema isValid fails oid body w = (r, w')"
    and "http_status r \<noteq> 200"
  shows "store w' = store w"
  using PATCH_any [OF assms(2)] assms(1,3) by auto

text \<open>
  The write to the car throws after the booking was written inside the transaction:
  completion answers 500 with the error's message, cancellation answers 500, and in both
  cases the store is the one from before the call.
\<close>

theorem failure_leaves_store_unchanged_witness:
  "car_write_fails RefetchBooking = None
   \<and> fst (PATCH spec_schema ex_isValid car_write_fails ex_b1 complete_action
            (ex_world_blocked (ex_booking Confirmed [''2024-06-01''])))
       = NextResponse_json (ErrorBody ''Failed to complete booking: write conflict'') 500
   \<and> store (snd (PATCH spec_schema ex_isValid car_write_fails ex_b1 complete_action
                   (ex_world_blocked (ex_booking Confirmed [''2024-06-01'']))))
       = store (ex_world_blocked (ex_booking Confirmed [''2024-06-01'']))
   \<and> fst (PATCH spec_schema ex_isValid car_write_fails ex_b1 (status_only ''cancelled'')
            (ex_world_blocked (ex_booking Confirmed [''2024-06-01''])))
       = NextResponse_json (ErrorBody ''Failed to update booking'') 500
   \<and> store (snd (PATCH spec_schema ex_isValid car_write_fails ex_b1 (status_only ''cancelled'')
                   (ex_world_blocked (ex_booking Confirmed [''2024-06-01'']))))
       = store (ex_world_blocked (ex_booking Confirmed [''2024-06-01'']))"
proof -
  let ?w = "ex_world_blocked (ex_booking Confirmed [''2024-06-01''])"
  have h1: "car_write_fails RefetchBooking = None" by (simp add: car_write_fails_def)
  obtain r1 w1 where p1: "PATCH spec_schema ex_isValid car_write_fails ex_b1 complete_action ?w = (r1, w1)"
    by (cases "PATCH spec_schema ex_isValid car_write_fails ex_b1 complete_action ?w")
  have r1: "r1 = NextResponse_json (ErrorBody ''Failed to complete booking: write conflict'') 500"
    using p1
    by (simp add: PATCH_def PATCH_try_def handleCompleteBooking_def handleCompleteBooking_try_def
        completeCarStep_def Booking_findByIdAndUpdate_def castUpdate_def set_completed_def
        car_write_fails_def complete_action_def ex_world_blocked_def ex_booking_def Let_def)
  have e1: "http_status r1 \<noteq> 200" by (simp add: r1)
  obtain r2 w2 where p2: "PATCH spec_schema ex_isValid car_write_fails ex_b1 (status_only ''cancelled'') ?w = (r2, w2)"
    by (cases "PATCH spec_schema ex_isValid car_write_fails ex_b1 (status_only ''cancelled'') ?w")
  have r2: "r2 = NextResponse_json (ErrorBody ''Failed to update booking'') 500"
    using p2
    by (simp add: PATCH_def PATCH_try_def handleRegularUpdate_def cancelBooking_def cancel_try_def
        cancelCarStep_def Booking_findByIdAndUpdate_def castUpdate_def populated_result_def
        is_truthy_def includes_status_def validStatuses_def
        car_write_fails_def status_only_def ex_world_blocked_def ex_booking_def Let_def)
  have e2: "http_status r2 \<noteq> 200" by (simp add: r2)
  have s1: "store w1 = store ?w"
    by (rule failure_leaves_store_unchanged [OF h1 p1 e1])
  have s2: "store w2 = store ?w"
    by (rule failure_leaves_store_unchanged [OF h1 p2 e2])
  show ?thesis
    unfolding p1 p2 fst_conv snd_conv using h1 r1 r2 s1 s2 by blast
qed

subsection \<open>Terminal states\<close>

text \<open>
  Claim C4, as amended. Completed is terminal: on a completed booking every requested
  transition (confirm, cancel or complete) is answered with 400 and the store stays as it
  was. On a cancelled booking, complete is answered with 400 and the store stays as it
  was, and a cancel request leaves the status cancelled.
\<close>

theorem terminal_states:
  assumes "isValid oid" and "bookings (store w) oid = Some b"
    and "PATCH schema isValid no_faults oid body w = (r, w')"
  shows "(status b = Completed \<and> requested body \<noteq> None \<longrightarrow>
            r = NextResponse_json
                  (ErrorBody (if is_complete body then ''Booking is already completed''
                              else ''Cannot modify a completed booking'')) 400
            \<and> store w' = store w)
       \<and> (status b = Cancelled \<and> requested body = Some Complete \<longrightarrow>
            r = NextResponse_json (ErrorBody ''Cannot complete a cancelled booking'') 400
            \<and> store w' = store w)
       \<and> (status b = Cancelled \<and> requested body = Some Cancel \<longrightarrow>
            http_status r = 200
            \<and> map_option status (bookings (store w') oid) = Some Cancelled)"
proof (intro conjI impI)
  assume a: "status b = Completed \<and> requested body \<noteq> None"
  then obtain t where t: "requested body = Some t" by auto
  have "r = NextResponse_json
              (ErrorBody (if is_complete body then ''Booking is already completed''
                          else ''Cannot modify a completed booking'')) 400
        \<and> store w' = store w"
  proof (cases "is_complete body")
    case True
    have "status b = Completed \<or> status b = Cancelled" using a by simp
    from PATCH_complete_rejects [where schema = schema and isValid = isValid, OF assms(1) True assms(2) this]
    show ?thesis using assms(3) a True by simp
  next
    case False
    then have "t \<noteq> Complete" using t by (auto simp add: requested_def split: if_splits)
    from requested_status [OF t this] obtain s where
      s: "req_status body = Some (JStr s)" "s = ''pending'' \<or> s = ''confirmed'' \<or> s = ''cancelled''"
      by blast
    have c: "status b = Completed" using a by simp
    from PATCH_completed_rejects [where schema = schema and isValid = isValid, OF assms(1) False assms(2) c s]
    show ?thesis using assms(3) False by simp
  qed
  then show "r = NextResponse_json
              (ErrorBody (if is_complete body then ''Booking is already completed''
                          else ''Cannot modify a completed booking'')) 400"
    and "store w' = store w" by simp_all
next
  assume a: "status b = Cancelled \<and> requested body = Some Complete"
  then have c: "is_complete body" by (simp add: requested_Complete)
  have "status b = Completed \<or> status b = Cancelled" using a by simp
  from PATCH_complete_rejects [where schema = schema and isValid = isValid, OF assms(1) c assms(2) this]
  have "r = NextResponse_json (ErrorBody ''Cannot complete a cancelled booking'') 400
        \<and> store w' = store w"
    using assms(3) a by simp
  then show "r = NextResponse_json (ErrorBody ''Cannot complete a cancelled booking'') 400"
    and "store w' = store w" by simp_all
next
  assume a: "status b = Cancelled \<and> requested body = Some Cancel"
  then have n: "\<not> is_complete body" and q: "req_status body = Some (JStr ''cancelled'')"
    by (simp_all add: requested_Cancel)
  have c: "status b = Cancelled" using a by simp
  from PATCH_cancel_again [where schema = schema and isValid = isValid, OF assms(1) n q assms(2) c]
  have "http_status r = 200 \<and> map_option status (bookings (store w') oid) = Some Cancelled"
    using assms(3) by auto
  then show "http_status r = 200"
    and "map_option status (bookings (store w') oid) = Some Cancelled" by simp_all
qed

text \<open>
  The scenario of the specification, continued: cancelling a completed booking is answered
  with 400 and changes nothing. Completing a cancelled booking is answered with 400, and
  cancelling it again leaves it cancelled.
\<close>

theorem terminal_states_witness:
  "ex_isValid ex_b1
   \<and> bookings (store (ex_world (ex_booking Completed [''2024-06-01'']))) ex_b1
       = Some (ex_booking Completed [''2024-06-01''])
   \<and> status (ex_booking Completed [''2024-06-01'']) = Completed
   \<and> requested (status_only ''cancelled'') \<noteq> None
   \<and> PATCH spec_schema ex_isValid no_faults ex_b1 (status_only ''cancelled'')
        (ex_world (ex_booking Completed [''2024-06-01'']))
       = (NextResponse_json (ErrorBody ''Cannot modify a completed booking'') 400,
          (ex_world (ex_booking Completed [''2024-06-01'']))\<lparr>calls := [BookingFindById ex_b1]\<rparr>)
   \<and> bookings (store (ex_world (ex_booking Cancelled [''2024-06-01'']))) ex_b1
       = Some (ex_booking Cancelled [''2024-06-01''])
   \<and> status (ex_booking Cancelled [''2024-06-01'']) = Cancelled
   \<and> requested complete_action = Some Complete
   \<and> PATCH spec_schema ex_isValid no_faults ex_b1 complete_action
        (ex_world (ex_booking Cancelled [''2024-06-01'']))
       = (NextResponse_json (ErrorBody ''Cannot complete a cancelled booking'') 400,
          (ex_world (ex_booking Cancelled [''2024-06-01'']))\<lparr>calls := [BookingFindById ex_b1]\<rparr>)
   \<and> requested (status_only ''cancelled'') = Some Cancel
   \<and> map_option status
        (bookings (store (snd (PATCH spec_schema ex_isValid no_faults ex_b1 (status_only ''cancelled'')
           (ex_world (ex_booking Cancelled [''2024-06-01''])))))
         ex_b1) = Some Cancelled"
proof -
  let ?done = "ex_world (ex_booking Completed [''2024-06-01''])"
  let ?gone = "ex_world (ex_booking Cancelled [''2024-06-01''])"
  have v: "ex_isValid ex_b1" by simp
  have k1: "bookings (store ?done) ex_b1 = Some (ex_booking Completed [''2024-06-01''])" by simp
  have k2: "bookings (store ?gone) ex_b1 = Some (ex_booking Cancelled [''2024-06-01''])" by simp
  obtain r1 w1 where p1: "PATCH spec_schema ex_isValid no_faults ex_b1 (status_only ''cancelled'') ?done = (r1, w1)"
    by (cases "PATCH spec_schema ex_isValid no_faults ex_b1 (status_only ''cancelled'') ?done")
  obtain r2 w2 where p2: "PATCH spec_schema ex_isValid no_faults ex_b1 complete_action ?gone = (r2, w2)"
    by (cases "PATCH spec_schema ex_isValid no_faults ex_b1 complete_action ?gone")
  obtain r3 w3 where p3: "PATCH spec_schema ex_isValid no_faults ex_b1 (status_only ''cancelled'') ?gone = (r3, w3)"
    by (cases "PATCH spec_schema ex_isValid no_faults ex_b1 (status_only ''cancelled'') ?gone")
  have c1: "r1 = NextResponse_json (ErrorBody ''Cannot modify a completed booking'') 400
            \<and> store w1 = store ?done"
    using terminal_states [where schema = spec_schema and isValid = ex_isValid, OF v k1 p1] by simp
  have l1: "calls w1 = [BookingFindById ex_b1]"
    using p1 PATCH_completed_rejects [where schema = spec_schema and isValid = ex_isValid and s = "''cancelled''"
        and body = "status_only ''cancelled''", OF v _ k1]
    by (simp add: ex_world_def)
  have c2: "r2 = NextResponse_json (ErrorBody ''Cannot complete a cancelled booking'') 400
            \<and> store w2 = store ?gone"
    using terminal_states [where schema = spec_schema and isValid = ex_isValid, OF v k2 p2] by simp
  have l2: "calls w2 = [BookingFindById ex_b1]"
    using p2 PATCH_complete_rejects [where schema = spec_schema and isValid = ex_isValid and body = complete_action, OF v _ k2]
    by (simp add: ex_world_def)
  have c3: "map_option status (bookings (store w3) ex_b1) = Some Cancelled"
    using terminal_states [where schema = spec_schema and isValid = ex_isValid, OF v k2 p3] by simp
  have e1: "w1 = ?done\<lparr>calls := [BookingFindById ex_b1]\<rparr>"
    using c1 l1 by (cases w1) (simp add: ex_world_def)
  have e2: "w2 = ?gone\<lparr>calls := [BookingFindById ex_b1]\<rparr>"
    using c2 l2 by (cases w2) (simp add: ex_world_def)
  show ?thesis
    unfolding p1 p2 p3 snd_conv using v k1 k2 c1 c2 c3 e1 e2 by simp
qed

text \<open>
  Claim C4 as stated fails on a cancelled booking: a confirm request is answered with 200
  and sets the status to confirmed, and a cancel request is answered with 200 as well.
\<close>

theorem confirm_reopens_cancelled_booking:
  "map_option status
     (bookings (store (ex_world (ex_booking Cancelled [''2024-06-01'']))) ex_b1) = Some Cancelled
   \<and> http_status (fst (PATCH spec_schema ex_isValid no_faults ex_b1 (status_only ''confirmed'')
                          (ex_world (ex_booking Cancelled [''2024-06-01''])))) = 200
   \<and> map_option status
        (bookings (store (snd (PATCH spec_schema ex_isValid no_faults ex_b1 (status_only ''confirmed'')
           (ex_world (ex_booking Cancelled [''2024-06-01''])))))
         ex_b1) = Some Confirmed
   \<and> http_status (fst (PATCH spec_schema ex_isValid no_faults ex_b1 (status_only ''cancelled'')
                          (ex_world (ex_booking Cancelled [''2024-06-01''])))) = 200"
proof -
  let ?b = "ex_booking Cancelled [''2024-06-01'']"
  have v: "ex_isValid ex_b1" by simp
  have again: "http_status (fst (PATCH spec_schema ex_isValid no_faults ex_b1 (status_only ''cancelled'')
                                   (ex_world ?b))) = 200"
    using PATCH_cancel_again [where schema = spec_schema and isValid = ex_isValid and body = "status_only ''cancelled''"
        and w = "ex_world ?b" and b = ?b, OF v]
    by simp
  have c: "castUpdate spec_schema (status_only ''confirmed'') ?b = Inr (?b\<lparr>status := Confirmed\<rparr>)"
    by (simp add: castUpdate_def status_only_def)
  have p: "PATCH spec_schema ex_isValid no_faults ex_b1 (status_only ''confirmed'') (ex_world ?b) =
     (NextResponse_json
        (BookingBody (''Booking '' @ ''confirmed'' @ '' successfully'')
           (Some (populate (updated_store ex_b1 (?b\<lparr>status := Confirmed\<rparr>) (store (ex_world ?b)))
                    (?b\<lparr>status := Confirmed\<rparr>)))) 200,
      (ex_world ?b)\<lparr>store := updated_store ex_b1 (?b\<lparr>status := Confirmed\<rparr>) (store (ex_world ?b)),
        calls := calls (ex_world ?b) @
                 [BookingFindById ex_b1, BookingFindByIdAndUpdate ex_b1,
                  CarFindById (carId (?b\<lparr>status := Confirmed\<rparr>))]\<rparr>)"
    by (rule PATCH_regular_ok [where schema = spec_schema and isValid = ex_isValid, OF v _ _ _ _ _ _ c]) simp_all
  show ?thesis
    using again unfolding p fst_conv snd_conv by simp
qed

subsection \<open>Repeated requests on a finished booking\<close>

text \<open>
  Claim C5, as amended. Completing a booking that is already completed is answered with
  400, changes nothing in the store and only reads the booking. A cancel request on a
  booking that is already cancelled is not refused: it takes the regular update, is
  answered with 200, leaves the status cancelled and every car as it was, and issues no
  write to a car.
\<close>

theorem repeated_terminal_request:
  assumes "isValid oid" and "bookings (store w) oid = Some b"
    and "PATCH schema isValid no_faults oid body w = (r, w')"
  shows "(status b = Completed \<and> is_complete body \<longrightarrow>
            r = NextResponse_json (ErrorBody ''Booking is already completed'') 400
            \<and> store w' = store w
            \<and> calls w' = calls w @ [BookingFindById oid])
       \<and> (status b = Cancelled \<and> \<not> is_complete body \<and> req_status body = Some (JStr ''cancelled'') \<longrightarrow>
            http_status r = 200
            \<and> map_option status (bookings (store w') oid) = Some Cancelled
            \<and> cars (store w') = cars (store w)
            \<and> calls w' = calls w @ [BookingFindById oid, BookingFindByIdAndUpdate oid,
                                     CarFindById (carId b)])"
proof (intro conjI impI)
  assume a: "status b = Completed \<and> is_complete body"
  then have c: "is_complete body" and s: "status b = Completed \<or> status b = Cancelled" by simp_all
  from PATCH_complete_rejects [where schema = schema and isValid = isValid, OF assms(1) c assms(2) s]
  have "r = NextResponse_json (ErrorBody ''Booking is already completed'') 400
        \<and> store w' = store w \<and> calls w' = calls w @ [BookingFindById oid]"
    using assms(3) a by auto
  then show "r = NextResponse_json (ErrorBody ''Booking is already completed'') 400"
    and "store w' = store w" and "calls w' = calls w @ [BookingFindById oid]" by simp_all
next
  assume a: "status b = Cancelled \<and> \<not> is_complete body \<and> req_status body = Some (JStr ''cancelled'')"
  then have n: "\<not> is_complete body" and q: "req_status body = Some (JStr ''cancelled'')"
    and c: "status b = Cancelled" by simp_all
  from PATCH_cancel_again [where schema = schema and isValid = isValid, OF assms(1) n q assms(2) c]
  have "http_status r = 200
        \<and> map_option status (bookings (store w') oid) = Some Cancelled
        \<and> cars (store w') = cars (store w)
        \<and> calls w' = calls w @ [BookingFindById oid, BookingFindByIdAndUpdate oid, CarFindById (carId b)]"
    using assms(3) by auto
  then show "http_status r = 200"
    and "map_option status (bookings (store w') oid) = Some Cancelled"
    and "cars (store w') = cars (store w)"
    and "calls w' = calls w @ [BookingFindById oid, BookingFindByIdAndUpdate oid, CarFindById (carId b)]"
    by simp_all
qed

text \<open>
  Completing a completed booking is refused after one read of the booking. Cancelling a
  cancelled booking leaves the car with its three entries and issues no write to it.
\<close>

theorem repeated_terminal_request_witness:
  "ex_isValid ex_b1
   \<and> bookings (store (ex_world_blocked (ex_booking Completed [''2024-06-01'']))) ex_b1
       = Some (ex_booking Completed [''2024-06-01''])
   \<and> status (ex_booking Completed [''2024-06-01'']) = Completed \<and> is_complete complete_action
   \<and> PATCH spec_schema ex_isValid no_faults ex_b1 complete_action
        (ex_world_blocked (ex_booking Completed [''2024-06-01'']))
       = (NextResponse_json (ErrorBody ''Booking is already completed'') 400,
          (ex_world_blocked (ex_booking Completed [''2024-06-01'']))\<lparr>calls := [BookingFindById ex_b1]\<rparr>)
   \<and> bookings (store (ex_world_blocked (ex_booking Cancelled [''2024-06-01'']))) ex_b1
       = Some (ex_booking Cancelled [''2024-06-01''])
   \<and> status (ex_booking Cancelled [''2024-06-01'']) = Cancelled
   \<and> \<not> is_complete (status_only ''cancelled'')
   \<and> req_status (status_only ''cancelled'') = Some (JStr ''cancelled'')
   \<and> cars (store (snd (PATCH spec_schema ex_isValid no_faults ex_b1 (status_only ''cancelled'')
              (ex_world_blocked (ex_booking Cancelled [''2024-06-01''])))))
       = [ex_c1 \<mapsto> ex_blocked_car]
   \<and> calls (snd (PATCH spec_schema ex_isValid no_faults ex_b1 (status_only ''cancelled'')
              (ex_world_blocked (ex_booking Cancelled [''2024-06-01'']))))
       = [BookingFindById ex_b1, BookingFindByIdAndUpdate ex_b1, CarFindById ex_c1]"
proof -
  let ?done = "ex_world_blocked (ex_booking Completed [''2024-06-01''])"
  let ?gone = "ex_world_blocked (ex_booking Cancelled [''2024-06-01''])"
  have v: "ex_isValid ex_b1" by simp
  have k1: "bookings (store ?done) ex_b1 = Some (ex_booking Completed [''2024-06-01''])"
    by (simp add: ex_world_blocked_def)
  have k2: "bookings (store ?gone) ex_b1 = Some (ex_booking Cancelled [''2024-06-01''])"
    by (simp add: ex_world_blocked_def)
  obtain r1 w1 where p1: "PATCH spec_schema ex_isValid no_faults ex_b1 complete_action ?done = (r1, w1)"
    by (cases "PATCH spec_schema ex_isValid no_faults ex_b1 complete_action ?done")
  obtain r2 w2 where p2: "PATCH spec_schema ex_isValid no_faults ex_b1 (status_only ''cancelled'') ?gone = (r2, w2)"
    by (cases "PATCH spec_schema ex_isValid no_faults ex_b1 (status_only ''cancelled'') ?gone")
  have c1: "r1 = NextResponse_json (ErrorBody ''Booking is already completed'') 400
            \<and> store w1 = store ?done \<and> calls w1 = calls ?done @ [BookingFindById ex_b1]"
    using repeated_terminal_request [where schema = spec_schema and isValid = ex_isValid, OF v k1 p1] by simp
  have e1: "w1 = ?done\<lparr>calls := [BookingFindById ex_b1]\<rparr>"
    using c1 by (cases w1) (simp add: ex_world_blocked_def)
  have c2: "cars (store w2) = cars (store ?gone)
            \<and> calls w2 = calls ?gone @ [BookingFindById ex_b1, BookingFindByIdAndUpdate ex_b1,
                                        CarFindById (carId (ex_booking Cancelled [''2024-06-01'']))]"
    using repeated_terminal_request [where schema = spec_schema and isValid = ex_isValid, OF v k2 p2] by simp
  have e2: "cars (store w2) = [ex_c1 \<mapsto> ex_blocked_car]"
    "calls w2 = [BookingFindById ex_b1, BookingFindByIdAndUpdate ex_b1, CarFindById ex_c1]"
    using c2 by (simp_all add: ex_world_blocked_def)
  show ?thesis
    unfolding p1 p2 snd_conv using v k1 k2 c1 e1 e2 by simp
qed

text \<open>
  Claim C5 as stated fails in its second half: cancelling a cancelled booking is answered
  with 200 and the message of a successful cancellation, not with an error.
\<close>

theorem cancel_again_is_answered_200:
  "map_option status
     (bookings (store (ex_world (ex_booking Cancelled [''2024-06-01'']))) ex_b1) = Some Cancelled
   \<and> fst (PATCH spec_schema ex_isValid no_faults ex_b1 (status_only ''cancelled'')
            (ex_world (ex_booking Cancelled [''2024-06-01''])))
       = NextResponse_json
           (BookingBody ''Booking cancelled successfully''
              (Some (Populated (ex_booking Cancelled [''2024-06-01'']) (Some ex_car)))) 200"
proof -
  let ?b = "ex_booking Cancelled [''2024-06-01'']"
  have v: "ex_isValid ex_b1" by simp
  have d: "cancelled_doc spec_schema (status_only ''cancelled'') ?b = ?b"
    by (simp add: cancelled_doc_def status_only_def ex_booking_def)
  have p: "fst (PATCH spec_schema ex_isValid no_faults ex_b1 (status_only ''cancelled'') (ex_world ?b)) =
     NextResponse_json
        (BookingBody ''Booking cancelled successfully''
           (Some (populate (updated_store ex_b1 ?b (store (ex_world ?b))) ?b))) 200"
    using PATCH_cancel_again [where schema = spec_schema and isValid = ex_isValid and body = "status_only ''cancelled''"
        and w = "ex_world ?b" and b = ?b, OF v]
    by (simp add: d)
  show ?thesis
    unfolding p by (simp add: populate_def)
qed

subsection \<open>Requests that are refused at once\<close>

text \<open>
  Claim C6, as amended. When the connection is up, a request whose booking identifier
  is not valid is answered with 400; so is a request with a valid identifier whose body
  could be read, whose action is not complete and whose status is a truthy value other
  than pending, confirmed, cancelled and completed. In both cases the handler has issued
  no call to the store and the store is as it was. (The status completed invokes
  completion, and a falsy status is treated as no status.)
\<close>

theorem invalid_request_refused:
  assumes "fails DbConnect = None"
    and "PATCH schema isValid fails oid body w = (r, w')"
  shows "(\<not> isValid oid \<longrightarrow>
            r = NextResponse_json (ErrorBody ''Invalid booking ID'') 400 \<and> w' = w)
       \<and> (isValid oid \<and> fails RequestJson = None
            \<and> req_action body \<noteq> Some (JStr ''complete'')
            \<and> req_status body = Some v \<and> truthy v
            \<and> v \<notin> set [JStr ''pending'', JStr ''confirmed'', JStr ''cancelled'', JStr ''completed''] \<longrightarrow>
            r = NextResponse_json
                  (ErrorBody ''Invalid status. Use action: 'complete' for completing bookings.'') 400
            \<and> w' = w)"
  using assms
  by (auto simp add: PATCH_def PATCH_try_def handleRegularUpdate_def is_truthy_def
      includes_status_def validStatuses_def Let_def)

text \<open>
  The identifier \<^verbatim>\<open>BK-1001\<close> is not valid, and \<^verbatim>\<open>archived\<close> is no status: both requests
  are answered with 400 and leave the store and the list of calls as they were.
\<close>

theorem invalid_request_refused_witness:
  "no_faults DbConnect = None
   \<and> \<not> ex_isValid ''BK-1001''
   \<and> PATCH spec_schema ex_isValid no_faults ''BK-1001'' complete_action
        (ex_world (ex_booking Pending [''2024-06-01'']))
       = (NextResponse_json (ErrorBody ''Invalid booking ID'') 400,
          ex_world (ex_booking Pending [''2024-06-01'']))
   \<and> ex_isValid ex_b1 \<and> no_faults RequestJson = None
   \<and> req_action (status_only ''archived'') \<noteq> Some (JStr ''complete'')
   \<and> req_status (status_only ''archived'') = Some (JStr ''archived'')
   \<and> truthy (JStr ''archived'')
   \<and> JStr ''archived'' \<notin> set [JStr ''pending'', JStr ''confirmed'', JStr ''cancelled'', JStr ''completed'']
   \<and> PATCH spec_schema ex_isValid no_faults ex_b1 (status_only ''archived'')
        (ex_world (ex_booking Pending [''2024-06-01'']))
       = (NextResponse_json
            (ErrorBody ''Invalid status. Use action: 'complete' for completing bookings.'') 400,
          ex_world (ex_booking Pending [''2024-06-01'']))"
proof -
  let ?w = "ex_world (ex_booking Pending [''2024-06-01''])"
  have f: "no_faults DbConnect = None" by simp
  have i: "\<not> ex_isValid ''BK-1001''" by (simp add: ex_isValid_def)
  obtain r1 w1 where p1: "PATCH spec_schema ex_isValid no_faults ''BK-1001'' complete_action ?w = (r1, w1)"
    by (cases "PATCH spec_schema ex_isValid no_faults ''BK-1001'' complete_action ?w")
  obtain r2 w2 where p2: "PATCH spec_schema ex_isValid no_faults ex_b1 (status_only ''archived'') ?w = (r2, w2)"
    by (cases "PATCH spec_schema ex_isValid no_faults ex_b1 (status_only ''archived'') ?w")
  have h: "ex_isValid ex_b1" "no_faults RequestJson = None"
    "req_action (status_only ''archived'') \<noteq> Some (JStr ''complete'')"
    "req_status (status_only ''archived'') = Some (JStr ''archived'')"
    "truthy (JStr ''archived'')"
    "JStr ''archived'' \<notin> set [JStr ''pending'', JStr ''confirmed'', JStr ''cancelled'', JStr ''completed'']"
    by (simp_all add: status_only_def)
  have c1: "r1 = NextResponse_json (ErrorBody ''Invalid booking ID'') 400 \<and> w1 = ?w"
    using invalid_request_refused [where schema = spec_schema and isValid = ex_isValid, OF f p1] i by blast
  have c2: "r2 = NextResponse_json
                  (ErrorBody ''Invalid status. Use action: 'complete' for completing bookings.'') 400
            \<and> w2 = ?w"
    using invalid_request_refused [where schema = spec_schema and isValid = ex_isValid and v = "JStr ''archived''", OF f p2] h
    by blast
  show ?thesis
    unfolding p1 p2 using f i h c1 c2 by blast
qed

text \<open>
  Claim C6 as stated fails. The status completed is outside pending, confirmed and
  cancelled and comes without an action, yet the request is not refused: it completes the
  booking. The empty string is outside them too, and the handler looks the booking up.
\<close>

theorem status_completed_is_not_refused:
  "JStr ''completed'' \<notin> set validStatuses
   \<and> req_action (status_only ''completed'') \<noteq> Some (JStr ''complete'')
   \<and> http_status (fst (PATCH spec_schema ex_isValid no_faults ex_b1 (status_only ''completed'')
                          (ex_world (ex_booking Pending [''2024-06-01''])))) = 200
   \<and> calls (snd (PATCH spec_schema ex_isValid no_faults ex_b1 (status_only ''completed'')
                   (ex_world (ex_booking Pending [''2024-06-01'']))))
       = [BookingFindById ex_b1, BookingFindByIdAndUpdate ex_b1, CarUpdateOne ex_c1,
          BookingFindById ex_b1, CarFindById ex_c1]
   \<and> map_option status
        (bookings (store (snd (PATCH spec_schema ex_isValid no_faults ex_b1 (status_only ''completed'')
           (ex_world (ex_booking Pending [''2024-06-01''])))))
         ex_b1) = Some Completed
   \<and> JStr [] \<notin> set validStatuses
   \<and> req_action (status_only []) \<noteq> Some (JStr ''complete'')
   \<and> BookingFindById ex_b1
       \<in> set (calls (snd (PATCH spec_schema ex_isValid no_faults ex_b1 (status_only [])
                             (ex_world (ex_booking Pending [''2024-06-01''])))))"
proof -
  let ?b = "ex_booking Pending [''2024-06-01'']"
  have v: "ex_isValid ex_b1" by simp
  have c: "is_complete (status_only ''completed'')"
    by (simp add: is_complete_def status_only_def)
  have p: "PATCH spec_schema ex_isValid no_faults ex_b1 (status_only ''completed'') (ex_world ?b) =
     (NextResponse_json
        (BookingBody ''Booking completed successfully''
           (Some (populate (completed_store ex_b1 ?b (store (ex_world ?b))) (?b\<lparr>status := Completed\<rparr>)))) 200,
      (ex_world ?b)\<lparr>store := completed_store ex_b1 ?b (store (ex_world ?b)),
        calls := calls (ex_world ?b) @ [BookingFindById ex_b1, BookingFindByIdAndUpdate ex_b1]
                 @ (if routeDates ?b = [] then [] else [CarUpdateOne (carId ?b)])
                 @ [BookingFindById ex_b1, CarFindById (carId ?b)]\<rparr>)"
    by (rule PATCH_complete_ok [where schema = spec_schema and isValid = ex_isValid, OF v c]) simp_all
  have e: "BookingFindById ex_b1
       \<in> set (calls (snd (PATCH spec_schema ex_isValid no_faults ex_b1 (status_only []) (ex_world ?b))))"
    by (simp add: PATCH_def PATCH_try_def handleRegularUpdate_def regularUpdate_def
        Booking_findByIdAndUpdate_def castUpdate_def is_truthy_def status_only_def Let_def
        ex_world_def)
  show ?thesis
    unfolding p fst_conv snd_conv using e
    by (simp add: validStatuses_def status_only_def completed_store_def ex_world_def)
qed

subsection \<open>Bookings without dates\<close>

text \<open>
  Claim C7, as amended. For a pending or confirmed booking whose schedule carries no
  dates, and with no call throwing, complete and cancel are answered with 200, write the
  booking's status (completed, cancelled) and leave every car as it was. Complete issues
  no update of the car. Cancel issues none when \<^verbatim>\<open>booking.schedule.date\<close> is falsy; when
  it is an empty array, cancel still issues the update of the car, a removal that matches
  no entry.
\<close>

theorem no_dates_no_car_change:
  assumes "isValid oid" and "bookings (store w) oid = Some b" and "bookingDates b = []"
    and "status b = Pending \<or> status b = Confirmed"
    and "PATCH schema isValid no_faults oid body w = (r, w')"
  shows "(is_complete body \<longrightarrow>
            http_status r = 200
            \<and> bookings (store w') = (bookings (store w))(oid \<mapsto> b\<lparr>status := Completed\<rparr>)
            \<and> cars (store w') = cars (store w)
            \<and> calls w' = calls w @ [BookingFindById oid, BookingFindByIdAndUpdate oid,
                                     BookingFindById oid, CarFindById (carId b)])
       \<and> (\<not> is_complete body \<and> req_status body = Some (JStr ''cancelled'') \<longrightarrow>
            http_status r = 200
            \<and> bookings (store w') = (bookings (store w))(oid \<mapsto> cancelled_doc schema body b)
            \<and> cars (store w') = cars (store w)
            \<and> calls w' = calls w @ [BookingFindById oid, BookingFindByIdAndUpdate oid,
                                     CarFindById (carId b)]
                          @ (case booking.schedule b of
                               Single e \<Rightarrow> [CarUpdateOne (carId b)]
                             | Absent \<Rightarrow> []
                             | Collection es \<Rightarrow> []))"
proof -
  have st: "status b \<noteq> Completed" "status b \<noteq> Cancelled"
    using assms(4) by auto
  have none: "routeDates b = []"
    by (rule routeDates_no_dates [OF assms(3)])
  have complete: "http_status r = 200
      \<and> bookings (store w') = (bookings (store w))(oid \<mapsto> b\<lparr>status := Completed\<rparr>)
      \<and> cars (store w') = cars (store w)
      \<and> calls w' = calls w @ [BookingFindById oid, BookingFindByIdAndUpdate oid,
                               BookingFindById oid, CarFindById (carId b)]" if c: "is_complete body"
    using PATCH_complete_ok [where schema = schema and isValid = isValid, OF assms(1) c assms(2) st] assms(5)
    by (auto simp add: completed_store_no_dates [OF none] none)
  have cancel: "http_status r = 200
      \<and> bookings (store w') = (bookings (store w))(oid \<mapsto> cancelled_doc schema body b)
      \<and> cars (store w') = cars (store w)
      \<and> calls w' = calls w @ [BookingFindById oid, BookingFindByIdAndUpdate oid,
                               CarFindById (carId b)]
                    @ (case booking.schedule b of
                         Single e \<Rightarrow> [CarUpdateOne (carId b)]
                       | Absent \<Rightarrow> []
                       | Collection es \<Rightarrow> [])"
    if n: "\<not> is_complete body" and q: "req_status body = Some (JStr ''cancelled'')"
    using PATCH_cancel_ok [where schema = schema and isValid = isValid, OF assms(1) n q assms(2) st] assms(5)
    by (cases "booking.schedule b") (auto simp add: pull_no_dates_store [OF none])
  show ?thesis using complete cancel by blast
qed

text \<open>
  A pending booking whose schedule is one object with an empty date array is completed,
  and is cancelled: the status is written and the car keeps its three entries; the
  cancellation issues the update of the car, the completion does not.
\<close>

theorem no_dates_no_car_change_witness:
  "ex_isValid ex_b1
   \<and> bookings (store (ex_world_blocked (ex_booking Pending []))) ex_b1 = Some (ex_booking Pending [])
   \<and> bookingDates (ex_booking Pending []) = []
   \<and> (status (ex_booking Pending []) = Pending \<or> status (ex_booking Pending []) = Confirmed)
   \<and> is_complete complete_action
   \<and> http_status (fst (PATCH spec_schema ex_isValid no_faults ex_b1 complete_action
                          (ex_world_blocked (ex_booking Pending [])))) = 200
   \<and> snd (PATCH spec_schema ex_isValid no_faults ex_b1 complete_action
             (ex_world_blocked (ex_booking Pending [])))
       = \<lparr>store = \<lparr>bookings = [ex_b1 \<mapsto> ex_booking Completed []],
                   cars = [ex_c1 \<mapsto> ex_blocked_car]\<rparr>,
          calls = [BookingFindById ex_b1, BookingFindByIdAndUpdate ex_b1,
                   BookingFindById ex_b1, CarFindById ex_c1]\<rparr>
   \<and> \<not> is_complete (status_only ''cancelled'')
   \<and> req_status (status_only ''cancelled'') = Some (JStr ''cancelled'')
   \<and> http_status (fst (PATCH spec_schema ex_isValid no_faults ex_b1 (status_only ''cancelled'')
                          (ex_world_blocked (ex_booking Pending [])))) = 200
   \<and> snd (PATCH spec_schema ex_isValid no_faults ex_b1 (status_only ''cancelled'')
             (ex_world_blocked (ex_booking Pending [])))
       = \<lparr>store = \<lparr>bookings = [ex_b1 \<mapsto> ex_booking Cancelled []],
                   cars = [ex_c1 \<mapsto> ex_blocked_car]\<rparr>,
          calls = [BookingFindById ex_b1, BookingFindByIdAndUpdate ex_b1,
                   CarFindById ex_c1, CarUpdateOne ex_c1]\<rparr>"
proof -
  let ?b = "ex_booking Pending []"
  let ?w = "ex_world_blocked ?b"
  have v: "ex_isValid ex_b1" by simp
  have k: "bookings (store ?w) ex_b1 = Some ?b" by simp
  have d: "bookingDates ?b = []" by simp
  have s: "status ?b = Pending \<or> status ?b = Confirmed" by simp
  obtain r1 w1 where p1: "PATCH spec_schema ex_isValid no_faults ex_b1 complete_action ?w = (r1, w1)"
    by (cases "PATCH spec_schema ex_isValid no_faults ex_b1 complete_action ?w")
  obtain r2 w2 where p2: "PATCH spec_schema ex_isValid no_faults ex_b1 (status_only ''cancelled'') ?w = (r2, w2)"
    by (cases "PATCH spec_schema ex_isValid no_faults ex_b1 (status_only ''cancelled'') ?w")
  have c1: "http_status r1 = 200
      \<and> bookings (store w1) = (bookings (store ?w))(ex_b1 \<mapsto> ?b\<lparr>status := Completed\<rparr>)
      \<and> cars (store w1) = cars (store ?w)
      \<and> calls w1 = calls ?w @ [BookingFindById ex_b1, BookingFindByIdAndUpdate ex_b1,
                                BookingFindById ex_b1, CarFindById (carId ?b)]"
    using no_dates_no_car_change [where schema = spec_schema and isValid = ex_isValid, OF v k d s p1]
    by simp
  have c2: "http_status r2 = 200
      \<and> bookings (store w2) = (bookings (store ?w))(ex_b1 \<mapsto> cancelled_doc spec_schema (status_only ''cancelled'') ?b)
      \<and> cars (store w2) = cars (store ?w)
      \<and> calls w2 = calls ?w @ [BookingFindById ex_b1, BookingFindByIdAndUpdate ex_b1,
                                CarFindById (carId ?b)] @ [CarUpdateOne (carId ?b)]"
    using no_dates_no_car_change [where schema = spec_schema and isValid = ex_isValid, OF v k d s p2]
    by (simp add: ex_booking_def)
  have e1: "w1 = \<lparr>store = \<lparr>bookings = [ex_b1 \<mapsto> ex_booking Completed []],
                            cars = [ex_c1 \<mapsto> ex_blocked_car]\<rparr>,
                   calls = [BookingFindById ex_b1, BookingFindByIdAndUpdate ex_b1,
                            BookingFindById ex_b1, CarFindById ex_c1]\<rparr>"
    using c1 by (cases w1, cases "store w1") (simp add: ex_world_blocked_def ex_booking_def)
  have e2: "w2 = \<lparr>store = \<lparr>bookings = [ex_b1 \<mapsto> ex_booking Cancelled []],
                            cars = [ex_c1 \<mapsto> ex_blocked_car]\<rparr>,
                   calls = [BookingFindById ex_b1, BookingFindByIdAndUpdate ex_b1,
                            CarFindById ex_c1, CarUpdateOne ex_c1]\<rparr>"
    using c2 by (cases w2, cases "store w2")
      (simp add: ex_world_blocked_def ex_booking_def cancelled_doc_def status_only_def)
  show ?thesis
    unfolding p1 p2 fst_conv snd_conv using v k d s c1 c2 e1 e2 by simp
qed

text \<open>
  Claim C7 as stated fails for cancel. The booking's schedule is one object with an empty
  date array: the cancellation does not skip the update of the car but issues it, and
  when that call throws the request is answered with 500 and the booking stays pending,
  while the completion of the same booking under the same fault plan is answered with
  200.
\<close>

theorem cancel_without_dates_updates_car:
  "bookingDates (ex_booking Pending []) = []
   \<and> calls (snd (PATCH spec_schema ex_isValid no_faults ex_b1 (status_only ''cancelled'')
                   (ex_world_blocked (ex_booking Pending []))))
       = [BookingFindById ex_b1, BookingFindByIdAndUpdate ex_b1, CarFindById ex_c1,
          CarUpdateOne ex_c1]
   \<and> PATCH spec_schema ex_isValid car_write_fails ex_b1 (status_only ''cancelled'')
        (ex_world_blocked (ex_booking Pending []))
       = (NextResponse_json (ErrorBody ''Failed to update booking'') 500,
          \<lparr>store = \<lparr>bookings = [ex_b1 \<mapsto> ex_booking Pending []],
                    cars = [ex_c1 \<mapsto> ex_blocked_car]\<rparr>,
           calls = [BookingFindById ex_b1, BookingFindByIdAndUpdate ex_b1, CarFindById ex_c1,
                    CarUpdateOne ex_c1]\<rparr>)
   \<and> http_status (fst (PATCH spec_schema ex_isValid car_write_fails ex_b1 complete_action
                          (ex_world_blocked (ex_booking Pending [])))) = 200
   \<and> map_option status
        (bookings (store (snd (PATCH spec_schema ex_isValid car_write_fails ex_b1 complete_action
           (ex_world_blocked (ex_booking Pending [])))))
         ex_b1) = Some Completed"
proof -
  let ?b = "ex_booking Pending []"
  let ?w = "ex_world_blocked ?b"
  have v: "ex_isValid ex_b1" by simp
  have k: "bookings (store ?w) ex_b1 = Some ?b" by simp
  have st: "status ?b \<noteq> Completed" "status ?b \<noteq> Cancelled" by simp_all
  have a: "calls (snd (PATCH spec_schema ex_isValid no_faults ex_b1 (status_only ''cancelled'') ?w))
       = [BookingFindById ex_b1, BookingFindByIdAndUpdate ex_b1, CarFindById ex_c1,
          CarUpdateOne ex_c1]"
    by (simp add: PATCH_cancel_ok [where schema = spec_schema and isValid = ex_isValid, OF v _ _ k st])
      (simp add: ex_world_blocked_def ex_booking_def)
  have f: "car_write_fails s = (if s = UpdateCar then Some ''write conflict'' else None)" for s
    by (simp add: car_write_fails_def)
  have b: "PATCH spec_schema ex_isValid car_write_fails ex_b1 (status_only ''cancelled'') ?w
       = (NextResponse_json (ErrorBody ''Failed to update booking'') 500,
          \<lparr>store = \<lparr>bookings = [ex_b1 \<mapsto> ex_booking Pending []],
                    cars = [ex_c1 \<mapsto> ex_blocked_car]\<rparr>,
           calls = [BookingFindById ex_b1, BookingFindByIdAndUpdate ex_b1, CarFindById ex_c1,
                    CarUpdateOne ex_c1]\<rparr>)"
    by (simp add: PATCH_def PATCH_try_def handleRegularUpdate_def cancelBooking_def cancel_try_def
        cancelCarStep_def Booking_findByIdAndUpdate_def castUpdate_def populated_result_def
        is_truthy_def includes_status_def validStatuses_def spec_schema_def logged_def
        f status_only_def ex_world_blocked_def ex_booking_def Let_def)
  have c: "PATCH spec_schema ex_isValid car_write_fails ex_b1 complete_action ?w
       = (NextResponse_json
            (BookingBody ''Booking completed successfully''
               (Some (Populated (ex_booking Completed []) (Some ex_blocked_car)))) 200,
          \<lparr>store = \<lparr>bookings = [ex_b1 \<mapsto> ex_booking Completed []],
                    cars = [ex_c1 \<mapsto> ex_blocked_car]\<rparr>,
           calls = [BookingFindById ex_b1, BookingFindByIdAndUpdate ex_b1,
                    BookingFindById ex_b1, CarFindById ex_c1]\<rparr>)"
    by (simp add: PATCH_def PATCH_try_def handleCompleteBooking_def handleCompleteBooking_try_def
        completeCarStep_def completeCommit_def Booking_findByIdAndUpdate_def set_completed_def
        populated_result_def populate_def logged_def
        f complete_action_def ex_world_blocked_def ex_booking_def Let_def)
  show ?thesis
    unfolding b c fst_conv snd_conv using a by simp
qed

subsection \<open>A booking whose car is gone\<close>

text \<open>
  Claim C8, as amended. When the car a pending or confirmed booking refers to does not
  exist, the update of the car's schedule matches no record and changes nothing, and the
  route does not look at its result: complete and cancel are answered with 200 and the
  message of success, the booking's status is written, and the response carries the
  booking with no car.
\<close>

theorem missing_car_is_not_reported:
  assumes "isValid oid" and "bookings (store w) oid = Some b"
    and "status b = Pending \<or> status b = Confirmed"
    and "cars (store w) (carId b) = None"
    and "PATCH schema isValid no_faults oid body w = (r, w')"
  shows "(is_complete body \<longrightarrow>
            r = NextResponse_json
                  (BookingBody ''Booking completed successfully''
                     (Some (Populated (b\<lparr>status := Completed\<rparr>) None))) 200
            \<and> store w' = updated_store oid (b\<lparr>status := Completed\<rparr>) (store w))
       \<and> (\<not> is_complete body \<and> req_status body = Some (JStr ''cancelled'') \<longrightarrow>
            r = NextResponse_json
                  (BookingBody ''Booking cancelled successfully''
                     (Some (Populated (cancelled_doc schema body b) None))) 200
            \<and> store w' = updated_store oid (cancelled_doc schema body b) (store w))"
proof -
  have st: "status b \<noteq> Completed" "status b \<noteq> Cancelled"
    using assms(3) by auto
  have gone: "\<And>b' f. Car_update (carId b) f (updated_store oid b' (store w)) = updated_store oid b' (store w)"
    using assms(4) by (simp add: Car_update_missing)
  have complete: "r = NextResponse_json
                  (BookingBody ''Booking completed successfully''
                     (Some (Populated (b\<lparr>status := Completed\<rparr>) None))) 200
            \<and> store w' = updated_store oid (b\<lparr>status := Completed\<rparr>) (store w)"
    if c: "is_complete body"
    using PATCH_complete_ok [where schema = schema and isValid = isValid, OF assms(1) c assms(2) st] assms(4,5)
    by (auto simp add: completed_store_def gone populate_def)
  have cancel: "r = NextResponse_json
                  (BookingBody ''Booking cancelled successfully''
                     (Some (Populated (cancelled_doc schema body b) None))) 200
            \<and> store w' = updated_store oid (cancelled_doc schema body b) (store w)"
    if n: "\<not> is_complete body" and q: "req_status body = Some (JStr ''cancelled'')"
    using PATCH_cancel_ok [where schema = schema and isValid = isValid, OF assms(1) n q assms(2) st] assms(4,5)
    by (auto simp add: gone populate_def)
  show ?thesis using complete cancel by blast
qed

text \<open>
  A confirmed booking whose car does not exist is cancelled: the answer is 200 and the
  booking is cancelled.
\<close>

theorem missing_car_is_not_reported_witness:
  "ex_isValid ex_b1
   \<and> bookings (store (ex_world_no_car (ex_booking Confirmed [''2024-06-01'']))) ex_b1
       = Some (ex_booking Confirmed [''2024-06-01''])
   \<and> (status (ex_booking Confirmed [''2024-06-01'']) = Pending
       \<or> status (ex_booking Confirmed [''2024-06-01'']) = Confirmed)
   \<and> cars (store (ex_world_no_car (ex_booking Confirmed [''2024-06-01''])))
        (carId (ex_booking Confirmed [''2024-06-01''])) = None
   \<and> \<not> is_complete (status_only ''cancelled'')
   \<and> req_status (status_only ''cancelled'') = Some (JStr ''cancelled'')
   \<and> fst (PATCH spec_schema ex_isValid no_faults ex_b1 (status_only ''cancelled'')
            (ex_world_no_car (ex_booking Confirmed [''2024-06-01''])))
       = NextResponse_json
           (BookingBody ''Booking cancelled successfully''
              (Some (Populated (ex_booking Cancelled [''2024-06-01'']) None))) 200
   \<and> store (snd (PATCH spec_schema ex_isValid no_faults ex_b1 (status_only ''cancelled'')
                   (ex_world_no_car (ex_booking Confirmed [''2024-06-01'']))))
       = \<lparr>bookings = [ex_b1 \<mapsto> ex_booking Cancelled [''2024-06-01'']], cars = Map.empty\<rparr>"
proof -
  let ?b = "ex_booking Confirmed [''2024-06-01'']"
  let ?w = "ex_world_no_car ?b"
  have v: "ex_isValid ex_b1" by simp
  have k: "bookings (store ?w) ex_b1 = Some ?b" by simp
  have s: "status ?b = Pending \<or> status ?b = Confirmed" by simp
  have g: "cars (store ?w) (carId ?b) = None" by simp
  have n: "\<not> is_complete (status_only ''cancelled'')"
    and q: "req_status (status_only ''cancelled'') = Some (JStr ''cancelled'')" by simp_all
  obtain r w' where p: "PATCH spec_schema ex_isValid no_faults ex_b1 (status_only ''cancelled'') ?w = (r, w')"
    by (cases "PATCH spec_schema ex_isValid no_faults ex_b1 (status_only ''cancelled'') ?w")
  have d: "cancelled_doc spec_schema (status_only ''cancelled'') ?b = ex_booking Cancelled [''2024-06-01'']"
    by (simp add: cancelled_doc_def status_only_def ex_booking_def)
  have c: "r = NextResponse_json
                  (BookingBody ''Booking cancelled successfully''
                     (Some (Populated (ex_booking Cancelled [''2024-06-01'']) None))) 200
            \<and> store w' = updated_store ex_b1 (ex_booking Cancelled [''2024-06-01'']) (store ?w)"
    using missing_car_is_not_reported [where schema = spec_schema and isValid = ex_isValid, OF v k s g p] n q
    by (simp add: d)
  have e: "store w' = \<lparr>bookings = [ex_b1 \<mapsto> ex_booking Cancelled [''2024-06-01'']], cars = Map.empty\<rparr>"
    using c by (simp add: updated_store_def ex_world_no_car_def)
  show ?thesis
    unfolding p fst_conv snd_conv using v k s g n q c e by simp
qed

text \<open>
  Claim C8 as stated fails: the booking's car does not exist, and completion is answered
  with 200 and the message of success; nothing reports that no car was updated.
\<close>

theorem completion_without_car_succeeds:
  "cars (store (ex_world_no_car (ex_booking Pending [''2024-06-01'', ''2024-06-02''])))
     (carId (ex_booking Pending [''2024-06-01'', ''2024-06-02''])) = None
   \<and> PATCH spec_schema ex_isValid no_faults ex_b1 complete_action
        (ex_world_no_car (ex_booking Pending [''2024-06-01'', ''2024-06-02'']))
       = (NextResponse_json
            (BookingBody ''Booking completed successfully''
               (Some (Populated (ex_booking Completed [''2024-06-01'', ''2024-06-02'']) None))) 200,
          \<lparr>store = \<lparr>bookings = [ex_b1 \<mapsto> ex_booking Completed [''2024-06-01'', ''2024-06-02'']],
                    cars = Map.empty\<rparr>,
           calls = [BookingFindById ex_b1, BookingFindByIdAndUpdate ex_b1, CarUpdateOne ex_c1,
                    BookingFindById ex_b1, CarFindById ex_c1]\<rparr>)"
proof -
  let ?b = "ex_booking Pending [''2024-06-01'', ''2024-06-02'']"
  let ?w = "ex_world_no_car ?b"
  have v: "ex_isValid ex_b1" by simp
  have p: "PATCH spec_schema ex_isValid no_faults ex_b1 complete_action ?w =
     (NextResponse_json
        (BookingBody ''Booking completed successfully''
           (Some (populate (completed_store ex_b1 ?b (store ?w)) (?b\<lparr>status := Completed\<rparr>)))) 200,
      ?w\<lparr>store := completed_store ex_b1 ?b (store ?w),
        calls := calls ?w @ [BookingFindById ex_b1, BookingFindByIdAndUpdate ex_b1]
                 @ (if routeDates ?b = [] then [] else [CarUpdateOne (carId ?b)])
                 @ [BookingFindById ex_b1, CarFindById (carId ?b)]\<rparr>)"
    by (rule PATCH_complete_ok [where schema = spec_schema and isValid = ex_isValid, OF v]) simp_all
  have d: "completed_store ex_b1 ?b (store ?w) =
      \<lparr>bookings = [ex_b1 \<mapsto> ex_booking Completed [''2024-06-01'', ''2024-06-02'']],
       cars = Map.empty\<rparr>"
    by (simp add: completed_store_def updated_store_def Car_update_def ex_world_no_car_def
        ex_booking_def)
  have l: "calls ?w = []" "cars (store ?w) = Map.empty"
    by (simp_all add: ex_world_no_car_def)
  have b': "?b\<lparr>status := Completed\<rparr> = ex_booking Completed [''2024-06-01'', ''2024-06-02'']"
    by (simp add: ex_booking_def)
  show ?thesis
    unfolding p d b' by (simp add: populate_def l ex_world_no_car_def)
qed

subsection \<open>The customer's details\<close>



subsection \<open>Confirming a confirmed booking\<close>

text \<open>
  Claim C10. On a booking whose status is confirmed, the request \<^verbatim>\<open>{status: "confirmed"}\<close>
  answers 200 with the booking, leaves the whole store as it was (the status stays
  confirmed, no car is changed), and issues no write to a car: it reads the booking,
  writes the booking and reads the car for the response.
\<close>

theorem confirm_idempotent:
  assumes "isValid oid" and "bookings (store w) oid = Some b" and "status b = Confirmed"
  shows "PATCH schema isValid no_faults oid (status_only ''confirmed'') w =
           (NextResponse_json (BookingBody ''Booking confirmed successfully''
                                 (Some (Populated b (cars (store w) (carId b))))) 200,
            w\<lparr>calls := calls w @
                 [BookingFindById oid, BookingFindByIdAndUpdate oid, CarFindById (carId b)]\<rparr>)"
proof -
  have nc: "status b \<noteq> Completed" using assms(3) by simp
  have body: "req_status (status_only ''confirmed'') = Some (JStr ''confirmed'')"
    by (simp add: status_only_def)
  have cast: "castUpdate schema (status_only ''confirmed'') b = Inr b"
    using assms(3) by (simp add: castUpdate_def status_only_def)
  have same: "updated_store oid b (store w) = store w"
    using assms(2) by (simp add: updated_store_def map_upd_triv)
  have reg: "handleRegularUpdate schema no_faults oid (status_only ''confirmed'') w =
               regularUpdate schema no_faults oid (status_only ''confirmed'') (logged (BookingFindById oid) w)"
    by (rule handleRegularUpdate_regular [OF assms(2) body _ nc]) simp_all
  have nocomp: "\<not> is_complete (status_only ''confirmed'')"
    by (simp add: is_complete_def status_only_def)
  have upd: "regularUpdate schema no_faults oid (status_only ''confirmed'') (logged (BookingFindById oid) w) =
     (Inr (NextResponse_json
            (BookingBody ''Booking confirmed successfully'' (Some (populate (store w) b))) 200),
      w\<lparr>calls := calls w @ [BookingFindById oid, BookingFindByIdAndUpdate oid, CarFindById (carId b)]\<rparr>)"
    using regularUpdate_ok [where w = "logged (BookingFindById oid) w" and oid = oid and b = b
        and schema = schema and body = "status_only ''confirmed''" and b' = b]
      assms(2) cast same
    by (simp add: body logged_def)
  show ?thesis
    using assms(1) nocomp by (simp add: PATCH_regular reg upd populate_def)
qed

text \<open>
  A confirmed booking is confirmed again: the answer is 200, the store is the same, and
  the calls are two on the booking and the read of the car for the response.
\<close>

theorem confirm_idempotent_witness:
  "ex_isValid ex_b1
   \<and> bookings (store (ex_world (ex_booking Confirmed [''2024-06-01'']))) ex_b1
       = Some (ex_booking Confirmed [''2024-06-01''])
   \<and> status (ex_booking Confirmed [''2024-06-01'']) = Confirmed
   \<and> PATCH spec_schema ex_isValid no_faults ex_b1 (status_only ''confirmed'')
        (ex_world (ex_booking Confirmed [''2024-06-01''])) =
       (NextResponse_json (BookingBody ''Booking confirmed successfully''
          (Some (Populated (ex_booking Confirmed [''2024-06-01'']) (Some ex_car)))) 200,
        \<lparr>store = \<lparr>bookings = [ex_b1 \<mapsto> ex_booking Confirmed [''2024-06-01'']],
                  cars = [ex_c1 \<mapsto> ex_car]\<rparr>,
         calls = [BookingFindById ex_b1, BookingFindByIdAndUpdate ex_b1, CarFindById ex_c1]\<rparr>)"
proof -
  let ?b = "ex_booking Confirmed [''2024-06-01'']"
  have h1: "ex_isValid ex_b1" by simp
  have h2: "bookings (store (ex_world ?b)) ex_b1 = Some ?b" by (simp add: ex_world_def)
  have h3: "status ?b = Confirmed" by (simp add: ex_booking_def)
  note T = confirm_idempotent [where schema = spec_schema and isValid = ex_isValid and oid = ex_b1, OF h1 h2 h3]
  have c: "PATCH spec_schema ex_isValid no_faults ex_b1 (status_only ''confirmed'') (ex_world ?b) =
       (NextResponse_json (BookingBody ''Booking confirmed successfully''
          (Some (Populated ?b (Some ex_car)))) 200,
        \<lparr>store = \<lparr>bookings = [ex_b1 \<mapsto> ?b], cars = [ex_c1 \<mapsto> ex_car]\<rparr>,
         calls = [BookingFindById ex_b1, BookingFindByIdAndUpdate ex_b1, CarFindById ex_c1]\<rparr>)"
    unfolding T by (simp add: ex_world_def ex_booking_def)
  show ?thesis using h1 h2 h3 c by blast
qed

end
